theory Spec2Isabelle
  imports Main "HOL-Library.Word" "HOL-Library.Multiset"
begin

section \<open>Data model\<close>

text \<open>
  The interfaces of \<^verbatim>\<open>src/app/api/trips/route.ts\<close>. A JavaScript \<^verbatim>\<open>number\<close> is
  never computed with by the code modelled here (it is stored, passed on, or printed), so
  the number type is the type parameter \<open>'n\<close>. An optional member (\<^verbatim>\<open>?:\<close>) is an
  \<open>option\<close>.
\<close>

record Traveler =
  traveler_id :: string
  traveler_name :: string

record 'n LocationCoords =
  lat :: 'n
  lng :: 'n

record 'n WeatherSnapshot =
  temperature :: 'n
  temperatureUnit :: string
  windSpeed :: 'n
  windSpeedUnit :: string
  time :: string

record 'n TripData =
  trip_id :: string
  tripNumber :: string
  origin :: string
  destination :: string
  modeOfTransport :: string
  departure :: string
  arrival :: string
  travelers :: "Traveler list"
  trip_notes :: string
  locationCoords :: "'n LocationCoords option"
  weatherData :: "'n WeatherSnapshot option"
  createdAt :: string

text \<open>
  The envelope \<^verbatim>\<open>JsonSiloResponse\<close>. Each handler that writes builds it as an object
  literal of its own, and so does its model below.
\<close>

record 'n FileData =
  trips :: "'n TripData list"

record 'n JsonSiloResponse =
  file_name :: string
  file_data :: "'n FileData"
  region_name :: string
  is_public :: bool

text \<open>
  The body of the store's answer to a GET, as the handlers read it: they look at
  \<^verbatim>\<open>data.file_data?.trips\<close> and at \<^verbatim>\<open>data.trips\<close>, and either may be missing.
  \<open>body_file_data = None\<close>: no \<^verbatim>\<open>file_data\<close> member (or null);
  \<open>body_file_data = Some None\<close>: a \<^verbatim>\<open>file_data\<close> without \<^verbatim>\<open>trips\<close>;
  \<open>body_trips = None\<close>: no top-level \<^verbatim>\<open>trips\<close> member. A member that is present is
  an array of trips, as the interface declares (an array is truthy even when empty).
\<close>

record 'n SiloBody =
  body_file_data :: "'n TripData list option option"
  body_trips :: "'n TripData list option"

text \<open>\<^verbatim>\<open>process.env\<close>: a variable is a string or undefined.\<close>

record Env =
  JSONSILO_API_URL :: "string option"
  JSONSILO_API_KEY :: "string option"

section \<open>The network\<close>

text \<open>
  \<^verbatim>\<open>fetch\<close> either rejects (\<open>Rejected\<close>) or resolves to a response with a status and
  a body; the body is \<open>None\<close> when \<^verbatim>\<open>response.json()\<close> throws (or yields null, on
  which the first member access throws into the same handler). \<^verbatim>\<open>response.ok\<close> is the
  status being in 200..299. A handler takes the network as a function from the request it
  issues to the result, and returns the list of requests it issued along with its answer.
\<close>

datatype 'b fetch_result = Rejected | Reply nat "'b option"

definition ok :: "nat \<Rightarrow> bool" where
  "ok st = (200 \<le> st \<and> st \<le> 299)"

text \<open>A request to the document store: the URL, the \<^verbatim>\<open>X-MAN-API\<close> header, and for PATCH the body.\<close>

datatype 'n silo_request =
  SiloGET string string
| SiloPATCH string string "'n JsonSiloResponse"

section \<open>Responses of the route handlers\<close>

record 'n WeatherOut = "'n WeatherSnapshot" +
  coordinates :: "'n LocationCoords"

datatype 'n json_body =
  ErrorBody string
| TripList "'n TripData list"
| TripMessage string "'n TripData"
| Message string
| TripCount nat nat
| Weather "'n WeatherOut"

record 'n response =
  status :: nat
  body :: "'n json_body"

definition json :: "'n json_body \<Rightarrow> nat \<Rightarrow> 'n response" where
  "json b st = \<lparr>status = st, body = b\<rparr>"

text \<open>\<^verbatim>\<open>!v\<close> on a string or undefined: true when undefined or empty.\<close>

fun falsy :: "string option \<Rightarrow> bool" where
  "falsy None = True"
| "falsy (Some s) = (s = [])"

section \<open>The trip collection: \<^verbatim>\<open>src/app/api/trips/route.ts\<close>\<close>

text \<open>
  The two response formats, read the same way by GET, POST, PUT and DELETE:
  \<^verbatim>\<open>if (data.file_data?.trips) ... else if (data.trips) ... else []\<close>.
\<close>

definition stored_trips :: "'n SiloBody \<Rightarrow> 'n TripData list" where
  "stored_trips responseData =
     (case body_file_data responseData of
        Some (Some ts) \<Rightarrow> ts
      | _ \<Rightarrow> (case body_trips responseData of Some ts \<Rightarrow> ts | None \<Rightarrow> []))"

text \<open>
  The two formats the store has been seen to answer with:
  \<^verbatim>\<open>{file_data: {trips: [...]}}\<close> and the bare \<^verbatim>\<open>{trips: [...]}\<close>.
\<close>

definition wrapped :: "'n TripData list \<Rightarrow> 'n SiloBody" where
  "wrapped ts = \<lparr>body_file_data = Some (Some ts), body_trips = None\<rparr>"

definition bare :: "'n TripData list \<Rightarrow> 'n SiloBody" where
  "bare ts = \<lparr>body_file_data = None, body_trips = Some ts\<rparr>"

text \<open>\<^verbatim>\<open>Array.prototype.findIndex\<close>; \<open>None\<close> is -1.\<close>

fun findIndex :: "('a \<Rightarrow> bool) \<Rightarrow> 'a list \<Rightarrow> nat option" where
  "findIndex P [] = None"
| "findIndex P (x # xs) = (if P x then Some 0 else map_option Suc (findIndex P xs))"

definition GET_trips ::
  "Env \<Rightarrow> ('n silo_request \<Rightarrow> 'n SiloBody fetch_result) \<Rightarrow> 'n response \<times> 'n silo_request list"
where
  "GET_trips env fetch =
     (if falsy (JSONSILO_API_URL env) \<or> falsy (JSONSILO_API_KEY env)
      then (json (ErrorBody ''Server configuration error'') 500, [])
      else
        case (JSONSILO_API_URL env, JSONSILO_API_KEY env) of
          (Some url, Some key) \<Rightarrow>
            (case fetch (SiloGET url key) of
               Rejected \<Rightarrow> (json (ErrorBody ''Failed to fetch trips'') 500, [SiloGET url key])
             | Reply st b \<Rightarrow>
                 if \<not> ok st
                 then (json (ErrorBody ''Failed to fetch trips'') 500, [SiloGET url key])
                 else
                   (case b of
                      None \<Rightarrow> (json (ErrorBody ''Failed to fetch trips'') 500, [SiloGET url key])
                    | Some data \<Rightarrow> (json (TripList (stored_trips data)) 200, [SiloGET url key])))
        | _ \<Rightarrow> (json (ErrorBody ''Server configuration error'') 500, []))"

text \<open>
  POST. The request body is \<open>None\<close> when \<^verbatim>\<open>request.json()\<close> throws.
  \<open>existing\<close> is what \<^verbatim>\<open>existingData.file_data.trips\<close> holds before the push: a
  GET that is not ok, or whose body does not parse, leaves it with its empty trips. A GET
  that is rejected throws out of the handler's \<^verbatim>\<open>try\<close> before anything is written.
\<close>

definition POST ::
  "Env \<Rightarrow> ('n silo_request \<Rightarrow> 'n SiloBody fetch_result) \<Rightarrow> 'n TripData option
     \<Rightarrow> 'n response \<times> 'n silo_request list"
where
  "POST env fetch request_json =
     (if falsy (JSONSILO_API_URL env) \<or> falsy (JSONSILO_API_KEY env)
      then (json (ErrorBody ''Server configuration error'') 500, [])
      else
        case (JSONSILO_API_URL env, JSONSILO_API_KEY env, request_json) of
          (Some url, Some key, Some tripData) \<Rightarrow>
            (case fetch (SiloGET url key) of
               Rejected \<Rightarrow> (json (ErrorBody ''Failed to save trip'') 500, [SiloGET url key])
             | Reply st b \<Rightarrow>
                 let existing =
                       (if ok st
                        then (case b of
                                Some responseData \<Rightarrow> stored_trips responseData
                              | None \<Rightarrow> [])
                        else []);
                     dataToSend =
                       \<lparr>file_name = ''trips_data'',
                        file_data = \<lparr>trips = existing @ [tripData]\<rparr>,
                        region_name = ''api'', is_public = False\<rparr>
                 in
                   (case fetch (SiloPATCH url key dataToSend) of
                      Rejected \<Rightarrow>
                        (json (ErrorBody ''Failed to save trip'') 500,
                         [SiloGET url key, SiloPATCH url key dataToSend])
                    | Reply pst pb \<Rightarrow>
                        if \<not> ok pst
                        then (json (ErrorBody ''Failed to save trip'') 500,
                              [SiloGET url key, SiloPATCH url key dataToSend])
                        else (json (TripMessage ''Trip saved successfully'' tripData) 200,
                              [SiloGET url key, SiloPATCH url key dataToSend])))
        | (Some url, Some key, None) \<Rightarrow> (json (ErrorBody ''Failed to save trip'') 500, [])
        | _ \<Rightarrow> (json (ErrorBody ''Server configuration error'') 500, []))"

definition PUT ::
  "Env \<Rightarrow> ('n silo_request \<Rightarrow> 'n SiloBody fetch_result) \<Rightarrow> 'n TripData option
     \<Rightarrow> 'n response \<times> 'n silo_request list"
where
  "PUT env fetch request_json =
     (if falsy (JSONSILO_API_URL env) \<or> falsy (JSONSILO_API_KEY env)
      then (json (ErrorBody ''Server configuration error'') 500, [])
      else
        case (JSONSILO_API_URL env, JSONSILO_API_KEY env, request_json) of
          (Some url, Some key, Some updatedTrip) \<Rightarrow>
            (case fetch (SiloGET url key) of
               Rejected \<Rightarrow> (json (ErrorBody ''Failed to update trip'') 500, [SiloGET url key])
             | Reply st b \<Rightarrow>
                 if \<not> ok st
                 then (json (ErrorBody ''Failed to update trip'') 500, [SiloGET url key])
                 else
                   (case b of
                      None \<Rightarrow> (json (ErrorBody ''Failed to update trip'') 500, [SiloGET url key])
                    | Some responseData \<Rightarrow>
                        (case findIndex (\<lambda>trip. trip_id trip = trip_id updatedTrip)
                                (stored_trips responseData) of
                           None \<Rightarrow> (json (ErrorBody ''Trip not found'') 404, [SiloGET url key])
                         | Some tripIndex \<Rightarrow>
                             let patch = SiloPATCH url key
                                   \<lparr>file_name = ''trips_data'',
                                    file_data =
                                      \<lparr>trips =
                                         (stored_trips responseData)[tripIndex := updatedTrip]\<rparr>,
                                    region_name = ''api'', is_public = False\<rparr>
                             in
                               (case fetch patch of
                                  Rejected \<Rightarrow>
                                    (json (ErrorBody ''Failed to update trip'') 500,
                                     [SiloGET url key, patch])
                                | Reply pst pb \<Rightarrow>
                                    if \<not> ok pst
                                    then (json (ErrorBody ''Failed to update trip'') 500,
                                          [SiloGET url key, patch])
                                    else (json (TripMessage ''Trip updated successfully'' updatedTrip) 200,
                                          [SiloGET url key, patch])))))
        | (Some url, Some key, None) \<Rightarrow> (json (ErrorBody ''Failed to update trip'') 500, [])
        | _ \<Rightarrow> (json (ErrorBody ''Server configuration error'') 500, []))"

text \<open>DELETE. \<open>tripId\<close> is \<^verbatim>\<open>searchParams.get('id')\<close>: \<open>None\<close> when the parameter is absent.\<close>

definition DELETE ::
  "Env \<Rightarrow> ('n silo_request \<Rightarrow> 'n SiloBody fetch_result) \<Rightarrow> string option
     \<Rightarrow> 'n response \<times> 'n silo_request list"
where
  "DELETE env fetch tripId =
     (if falsy (JSONSILO_API_URL env) \<or> falsy (JSONSILO_API_KEY env)
      then (json (ErrorBody ''Server configuration error'') 500, [])
      else if falsy tripId
      then (json (ErrorBody ''Trip ID is required'') 400, [])
      else
        case (JSONSILO_API_URL env, JSONSILO_API_KEY env, tripId) of
          (Some url, Some key, Some tid) \<Rightarrow>
            (case fetch (SiloGET url key) of
               Rejected \<Rightarrow> (json (ErrorBody ''Failed to delete trip'') 500, [SiloGET url key])
             | Reply st b \<Rightarrow>
                 if \<not> ok st
                 then (json (ErrorBody ''Failed to delete trip'') 500, [SiloGET url key])
                 else
                   (case b of
                      None \<Rightarrow> (json (ErrorBody ''Failed to delete trip'') 500, [SiloGET url key])
                    | Some responseData \<Rightarrow>
                        let originalLength = length (stored_trips responseData);
                            kept = filter (\<lambda>trip. trip_id trip \<noteq> tid) (stored_trips responseData);
                            patch = SiloPATCH url key
                              \<lparr>file_name = ''trips_data'', file_data = \<lparr>trips = kept\<rparr>,
                               region_name = ''api'', is_public = False\<rparr>
                        in
                          if length kept = originalLength
                          then (json (ErrorBody ''Trip not found'') 404, [SiloGET url key])
                          else
                            (case fetch patch of
                               Rejected \<Rightarrow>
                                 (json (ErrorBody ''Failed to delete trip'') 500,
                                  [SiloGET url key, patch])
                             | Reply pst pb \<Rightarrow>
                                 if \<not> ok pst
                                 then (json (ErrorBody ''Failed to delete trip'') 500,
                                       [SiloGET url key, patch])
                                 else (json (Message ''Trip deleted successfully'') 200,
                                       [SiloGET url key, patch]))))
        | _ \<Rightarrow> (json (ErrorBody ''Server configuration error'') 500, []))"

section \<open>The trip count: \<^verbatim>\<open>src/app/api/trips/count/route.ts\<close>\<close>

text \<open>
  This handler does not check the environment (\<^verbatim>\<open>JSONSILO_API_URL!\<close>). With the URL
  undefined \<^verbatim>\<open>fetch\<close> rejects before anything is sent; an undefined key is sent as
  the header text \<^verbatim>\<open>undefined\<close>. The count is
  \<^verbatim>\<open>data.file_data?.trips?.length || 0\<close>: only the wrapped format is read.
\<close>

definition GET_count ::
  "Env \<Rightarrow> ('n silo_request \<Rightarrow> 'n SiloBody fetch_result) \<Rightarrow> 'n response \<times> 'n silo_request list"
where
  "GET_count env fetch =
     (case JSONSILO_API_URL env of
        None \<Rightarrow> (json (TripCount 0 1) 200, [])
      | Some url \<Rightarrow>
          let key = (case JSONSILO_API_KEY env of None \<Rightarrow> ''undefined'' | Some k \<Rightarrow> k) in
            (case fetch (SiloGET url key) of
               Rejected \<Rightarrow> (json (TripCount 0 1) 200, [SiloGET url key])
             | Reply st b \<Rightarrow>
                 if \<not> ok st
                 then (json (TripCount 0 1) 200, [SiloGET url key])
                 else
                   (case b of
                      None \<Rightarrow> (json (TripCount 0 1) 200, [SiloGET url key])
                    | Some data \<Rightarrow>
                        let tripCount =
                              (case body_file_data data of
                                 Some (Some ts) \<Rightarrow> length ts
                               | _ \<Rightarrow> 0)
                        in (json (TripCount tripCount (tripCount + 1)) 200, [SiloGET url key]))))"

section \<open>Geocoding: \<^verbatim>\<open>src/utils/geocoding.ts\<close>\<close>

record 'n GeocodingResult =
  place_id :: string
  display_name :: string
  result_lat :: string
  lon :: string
  result_type :: string
  importance :: 'n

text \<open>
  A query is a JavaScript string: a sequence of UTF-16 code units, which is what
  \<^verbatim>\<open>length\<close> counts. \<^verbatim>\<open>String.prototype.trim\<close> removes the white space and line
  terminators of ECMAScript from both ends; all of them are single code units.
\<close>

definition isWhiteSpace :: "16 word \<Rightarrow> bool" where
  "isWhiteSpace c =
     (c = 0x9 \<or> c = 0xA \<or> c = 0xB \<or> c = 0xC \<or> c = 0xD \<or> c = 0x20 \<or> c = 0xA0
      \<or> c = 0x1680 \<or> (0x2000 \<le> c \<and> c \<le> 0x200A) \<or> c = 0x2028 \<or> c = 0x2029
      \<or> c = 0x202F \<or> c = 0x205F \<or> c = 0x3000 \<or> c = 0xFEFF)"

definition trim :: "16 word list \<Rightarrow> 16 word list" where
  "trim s = rev (dropWhile isWhiteSpace (rev (dropWhile isWhiteSpace s)))"

text \<open>
  \<^verbatim>\<open>encodeURIComponent\<close> throws a URIError on a string with a lone surrogate, that is,
  on one that is not well formed. The URL is built inside the \<^verbatim>\<open>try\<close>, so the catch
  answers with the empty sequence before \<^verbatim>\<open>fetch\<close> is called.
\<close>

definition highSurrogate :: "16 word \<Rightarrow> bool" where
  "highSurrogate c = (0xD800 \<le> c \<and> c \<le> 0xDBFF)"

definition lowSurrogate :: "16 word \<Rightarrow> bool" where
  "lowSurrogate c = (0xDC00 \<le> c \<and> c \<le> 0xDFFF)"

fun isWellFormed :: "16 word list \<Rightarrow> bool" where
  "isWellFormed [] = True"
| "isWellFormed [c] = (\<not> highSurrogate c \<and> \<not> lowSurrogate c)"
| "isWellFormed (c # d # ds) =
     (if highSurrogate c then lowSurrogate d \<and> isWellFormed ds
      else \<not> lowSurrogate c \<and> isWellFormed (d # ds))"

datatype search_request = Search "16 word list"

datatype 'n reverse_request = Reverse 'n 'n

definition searchLocations ::
  "(search_request \<Rightarrow> 'n GeocodingResult list fetch_result) \<Rightarrow> 16 word list
     \<Rightarrow> 'n GeocodingResult list \<times> search_request list"
where
  "searchLocations fetch query =
     (if query = [] \<or> length (trim query) < 3 then ([], [])
      else if \<not> isWellFormed query then ([], [])
      else
        case fetch (Search query) of
          Rejected \<Rightarrow> ([], [Search query])
        | Reply st b \<Rightarrow>
            if \<not> ok st then ([], [Search query])
            else (case b of None \<Rightarrow> ([], [Search query]) | Some data \<Rightarrow> (data, [Search query])))"

text \<open>
  The body of a reverse lookup, of which only \<^verbatim>\<open>display_name\<close> is read. The
  conversion of a number to text in the template \<^verbatim>\<open>`${lat}, ${lng}`\<close> is the
  language's, taken as the parameter \<open>toString\<close>.
\<close>

record ReverseBody =
  reverse_display_name :: "string option"

definition reverseGeocode ::
  "('n \<Rightarrow> string) \<Rightarrow> ('n reverse_request \<Rightarrow> ReverseBody fetch_result) \<Rightarrow> 'n \<Rightarrow> 'n
     \<Rightarrow> string \<times> 'n reverse_request list"
where
  "reverseGeocode toString fetch lat_arg lng_arg =
     (case fetch (Reverse lat_arg lng_arg) of
        Rejected \<Rightarrow> (toString lat_arg @ '', '' @ toString lng_arg, [Reverse lat_arg lng_arg])
      | Reply st b \<Rightarrow>
          if \<not> ok st
          then (toString lat_arg @ '', '' @ toString lng_arg, [Reverse lat_arg lng_arg])
          else
            (case b of
               None \<Rightarrow> (toString lat_arg @ '', '' @ toString lng_arg, [Reverse lat_arg lng_arg])
             | Some data \<Rightarrow>
                 (if falsy (reverse_display_name data)
                  then toString lat_arg @ '', '' @ toString lng_arg
                  else (case reverse_display_name data of
                          Some name \<Rightarrow> name
                        | None \<Rightarrow> toString lat_arg @ '', '' @ toString lng_arg),
                  [Reverse lat_arg lng_arg])))"

section \<open>Weather: \<^verbatim>\<open>src/unnamed/part_001\<close>\<close>

record 'n Current =
  temperature_2m :: 'n
  wind_speed_10m :: 'n
  current_time :: string

record CurrentUnits =
  temperature_2m_unit :: string
  wind_speed_10m_unit :: string

record 'n WeatherData =
  latitude :: 'n
  longitude :: 'n
  current :: "'n Current"
  current_units :: CurrentUnits

datatype weather_request = Forecast string string

text \<open>
  \<open>lat_param\<close> and \<open>lng_param\<close> are \<^verbatim>\<open>searchParams.get('lat')\<close> and
  \<^verbatim>\<open>searchParams.get('lng')\<close>: the text of the parameter, \<open>None\<close> when it is absent.
\<close>

definition GET_weather ::
  "(weather_request \<Rightarrow> 'n WeatherData fetch_result) \<Rightarrow> string option \<Rightarrow> string option
     \<Rightarrow> 'n response \<times> weather_request list"
where
  "GET_weather fetch lat_param lng_param =
     (if falsy lat_param \<or> falsy lng_param
      then (json (ErrorBody ''Latitude and longitude are required'') 400, [])
      else
        case (lat_param, lng_param) of
          (Some la, Some ln) \<Rightarrow>
            (case fetch (Forecast la ln) of
               Rejected \<Rightarrow> (json (ErrorBody ''Failed to fetch weather data'') 500, [Forecast la ln])
             | Reply st b \<Rightarrow>
                 if \<not> ok st
                 then (json (ErrorBody ''Failed to fetch weather data'') 500, [Forecast la ln])
                 else
                   (case b of
                      None \<Rightarrow>
                        (json (ErrorBody ''Failed to fetch weather data'') 500, [Forecast la ln])
                    | Some wd \<Rightarrow>
                        (json (Weather
                           \<lparr>temperature = temperature_2m (current wd),
                            temperatureUnit = temperature_2m_unit (current_units wd),
                            windSpeed = wind_speed_10m (current wd),
                            windSpeedUnit = wind_speed_10m_unit (current_units wd),
                            time = current_time (current wd),
                            coordinates =
                              \<lparr>lat = latitude wd, lng = longitude wd\<rparr>\<rparr>) 200,
                         [Forecast la ln])))
        | _ \<Rightarrow> (json (ErrorBody ''Latitude and longitude are required'') 400, []))"

section \<open>The home page's listing: \<^verbatim>\<open>fetchTrips\<close> in \<^verbatim>\<open>src/app/page.tsx\<close>\<close>

record 'n HomeState =
  home_trips :: "'n TripData list"
  loading :: bool
  error :: "string option"

text \<open>
  The comparator \<^verbatim>\<open>new Date(b.createdAt).getTime() - new Date(a.createdAt).getTime()\<close>.
  \<open>getTime\<close> is the language's reading of a date text in milliseconds, \<open>None\<close> where it
  is NaN; a NaN difference counts as 0 in a sort.
\<close>

definition compareCreatedAt :: "(string \<Rightarrow> int option) \<Rightarrow> 'n TripData \<Rightarrow> 'n TripData \<Rightarrow> int" where
  "compareCreatedAt getTime a b =
     (case (getTime (createdAt b), getTime (createdAt a)) of
        (Some tb, Some ta) \<Rightarrow> tb - ta
      | _ \<Rightarrow> 0)"

text \<open>
  \<^verbatim>\<open>Array.prototype.sort\<close> with a comparator. The language fixes the result where the
  comparator is consistent on the elements (reflexive, symmetric and transitive in its
  zeros, transitive in its negatives and in its positives): the result is then the
  stable sorted order, computed here by insertion. Where the comparator is not
  consistent the order is the engine's choice, taken as the parameter \<open>engine\<close>.
\<close>

definition consistent_comparator :: "('a \<Rightarrow> 'a \<Rightarrow> int) \<Rightarrow> 'a list \<Rightarrow> bool" where
  "consistent_comparator cmp xs =
     (list_all (\<lambda>a. cmp a a = 0) xs
      \<and> list_all (\<lambda>a. list_all (\<lambda>b. (cmp a b = 0) = (cmp b a = 0)) xs) xs
      \<and> list_all (\<lambda>a. list_all (\<lambda>b. list_all (\<lambda>c.
             (if cmp a b = 0 \<and> cmp b c = 0 then cmp a c = 0 else True)
           \<and> (if cmp a b < 0 \<and> cmp b c < 0 then cmp a c < 0 else True)
           \<and> (if cmp a b > 0 \<and> cmp b c > 0 then cmp a c > 0 else True)) xs) xs) xs)"

fun insert_sorted :: "('a \<Rightarrow> 'a \<Rightarrow> int) \<Rightarrow> 'a \<Rightarrow> 'a list \<Rightarrow> 'a list" where
  "insert_sorted cmp x [] = [x]"
| "insert_sorted cmp x (y # ys) =
     (if cmp x y \<le> 0 then x # y # ys else y # insert_sorted cmp x ys)"

fun insertion_sort :: "('a \<Rightarrow> 'a \<Rightarrow> int) \<Rightarrow> 'a list \<Rightarrow> 'a list" where
  "insertion_sort cmp [] = []"
| "insertion_sort cmp (x # xs) = insert_sorted cmp x (insertion_sort cmp xs)"

definition array_sort ::
  "(('a \<Rightarrow> 'a \<Rightarrow> int) \<Rightarrow> 'a list \<Rightarrow> 'a list) \<Rightarrow> ('a \<Rightarrow> 'a \<Rightarrow> int) \<Rightarrow> 'a list \<Rightarrow> 'a list"
where
  "array_sort engine cmp xs =
     (if consistent_comparator cmp xs then insertion_sort cmp xs else engine cmp xs)"

text \<open>
  \<open>api\<close> is the result of \<^verbatim>\<open>fetch('/api/trips')\<close>. A body that is not an array has no
  \<^verbatim>\<open>sort\<close>, which throws into the catch. The state is the one after \<^verbatim>\<open>finally\<close>.
\<close>

definition fetchTrips ::
  "(('n TripData \<Rightarrow> 'n TripData \<Rightarrow> int) \<Rightarrow> 'n TripData list \<Rightarrow> 'n TripData list)
     \<Rightarrow> (string \<Rightarrow> int option) \<Rightarrow> 'n json_body fetch_result \<Rightarrow> 'n HomeState \<Rightarrow> 'n HomeState"
where
  "fetchTrips engine getTime api s =
     (case api of
        Rejected \<Rightarrow> s\<lparr>loading := False, error := Some ''Failed to load trips''\<rparr>
      | Reply st b \<Rightarrow>
          if ok st
          then (case b of
                  Some (TripList tripsData) \<Rightarrow>
                    s\<lparr>home_trips := array_sort engine (compareCreatedAt getTime) tripsData,
                      loading := False, error := None\<rparr>
                | _ \<Rightarrow> s\<lparr>loading := False, error := Some ''Failed to load trips''\<rparr>)
          else s\<lparr>loading := False, error := Some ''Failed to load trips''\<rparr>)"

text \<open>The browser's call of the route: the handler's response is what \<^verbatim>\<open>fetch\<close> resolves to.\<close>

definition served :: "'n response \<Rightarrow> 'n json_body fetch_result" where
  "served r = Reply (status r) (Some (body r))"

section \<open>Example data\<close>

text \<open>Concrete inputs on which the theorems below are exercised; numbers are integers there.\<close>

definition example_env :: Env where
  "example_env = \<lparr>JSONSILO_API_URL = Some ''https://silo.example/doc'', JSONSILO_API_KEY = Some ''k''\<rparr>"

definition example_trip :: "string \<Rightarrow> string \<Rightarrow> string \<Rightarrow> int TripData" where
  "example_trip i place created =
     \<lparr>trip_id = i, tripNumber = ''1'', origin = place, destination = [],
      modeOfTransport = ''Car'', departure = [], arrival = [],
      travelers = [\<lparr>traveler_id = ''1'', traveler_name = ''John Doe''\<rparr>], trip_notes = [],
      locationCoords = None, weatherData = None, createdAt = created\<rparr>"

text \<open>
  Networks: a store that answers every GET with status \<open>gst\<close> and body \<open>doc\<close> and
  every PATCH with status \<open>pst\<close>; a network on which every request is rejected; and one
  that answers every request with the same status and body.
\<close>

definition store ::
  "nat \<Rightarrow> 'n SiloBody option \<Rightarrow> nat \<Rightarrow> 'n silo_request \<Rightarrow> 'n SiloBody fetch_result"
where
  "store gst doc pst req =
     (case req of SiloGET u k \<Rightarrow> Reply gst doc | SiloPATCH u k b \<Rightarrow> Reply pst None)"

definition unreachable :: "'a \<Rightarrow> 'b fetch_result" where
  "unreachable req = Rejected"

definition answering :: "nat \<Rightarrow> 'b option \<Rightarrow> 'a \<Rightarrow> 'b fetch_result" where
  "answering st b req = Reply st b"

text \<open>Numbers that are kept as their decimal text, so that printing one is the text itself.\<close>

definition as_written :: "string \<Rightarrow> string" where
  "as_written text = text"

definition trip_paris :: "int TripData" where
  "trip_paris = example_trip ''a'' ''Paris'' ''2025-01-01T00:00:00.000Z''"

definition trip_rome :: "int TripData" where
  "trip_rome = example_trip ''b'' ''Rome'' ''2025-03-01T00:00:00.000Z''"

definition trip_oslo :: "int TripData" where
  "trip_oslo = example_trip ''b'' ''Oslo'' ''2025-03-01T00:00:00.000Z''"

definition trip_lima :: "int TripData" where
  "trip_lima = example_trip ''c'' ''Lima'' ''2025-02-01T00:00:00.000Z''"

definition trip_undated :: "int TripData" where
  "trip_undated = example_trip ''d'' ''Nice'' []"

text \<open>An engine that sorts by insertion from the right, whatever the comparator.\<close>

definition insertion_engine :: "('a \<Rightarrow> 'a \<Rightarrow> int) \<Rightarrow> 'a list \<Rightarrow> 'a list" where
  "insertion_engine cmp xs = insertion_sort cmp xs"

definition example_weather :: "int WeatherData" where
  "example_weather =
     \<lparr>latitude = 13, longitude = 78,
      current = \<lparr>temperature_2m = 24, wind_speed_10m = 11, current_time = ''2025-03-01T10:00''\<rparr>,
      current_units = \<lparr>temperature_2m_unit = ''C'', wind_speed_10m_unit = ''km/h''\<rparr>\<rparr>"

text \<open>A reading of three date texts, in milliseconds since the epoch; any other text is no date.\<close>

definition example_getTime :: "string \<Rightarrow> int option" where
  "example_getTime text =
     (if text = ''2025-01-01T00:00:00.000Z'' then Some 1735689600000
      else if text = ''2025-02-01T00:00:00.000Z'' then Some 1738368000000
      else if text = ''2025-03-01T00:00:00.000Z'' then Some 1740787200000
      else None)"

definition example_home :: "int HomeState" where
  "example_home = \<lparr>home_trips = [], loading = True, error = None\<rparr>"

section \<open>Properties\<close>

subsection \<open>Auxiliary facts\<close>

lemma findIndex_None: "findIndex P xs = None \<longleftrightarrow> (\<forall>x\<in>set xs. \<not> P x)"
  by (induction xs) auto

lemma findIndex_Some:
  "findIndex P xs = Some i \<Longrightarrow> i < length xs \<and> P (xs ! i) \<and> (\<forall>j<i. \<not> P (xs ! j))"
proof (induction xs arbitrary: i)
  case Nil
  then show ?case by simp
next
  case (Cons x xs)
  show ?case
  proof (cases "P x")
    case True
    with Cons.prems show ?thesis by simp
  next
    case False
    with Cons.prems obtain k where k: "findIndex P xs = Some k" "i = Suc k"
      by auto
    from Cons.IH[OF k(1)] False k(2) show ?thesis
      by (auto simp: less_Suc_eq_0_disj)
  qed
qed

lemma stored_trips_wrapped: "stored_trips (wrapped ts) = ts"
  by (simp add: stored_trips_def wrapped_def)

lemma stored_trips_bare: "stored_trips (bare ts) = ts"
  by (simp add: stored_trips_def bare_def)

lemma example_ids:
  "trip_id trip_paris = ''a''" "trip_id trip_rome = ''b''" "trip_id trip_oslo = ''b''"
  "trip_id trip_lima = ''c''"
  by (simp_all add: trip_paris_def trip_rome_def trip_oslo_def trip_lima_def example_trip_def)

lemma example_env_simps:
  "JSONSILO_API_URL example_env = Some ''https://silo.example/doc''"
  "JSONSILO_API_KEY example_env = Some ''k''"
  by (simp_all add: example_env_def)

lemma network_simps:
  "unreachable req = Rejected"
  "answering st b req = Reply st b"
  "as_written text = text"
  by (simp_all add: unreachable_def answering_def as_written_def)

lemma store_simps:
  "store gst doc pst (SiloGET u k) = Reply gst doc"
  "store gst doc pst (SiloPATCH u k b) = Reply pst None"
  by (simp_all add: store_def)

subsection \<open>The guards of the store handlers\<close>

text \<open>
  Without a URL or a key every handler of the trip collection answers the configuration
  error and issues no request; a DELETE without an id is answered 400 and issues none
  either. The theorems about these handlers are therefore stated for a configured store
  and, for DELETE, a request that carries an id.
\<close>

lemma unconfigured_store:
  assumes "falsy (JSONSILO_API_URL env) \<or> falsy (JSONSILO_API_KEY env)"
  shows "GET_trips env fetch = (json (ErrorBody ''Server configuration error'') 500, [])"
    and "POST env fetch request_json = (json (ErrorBody ''Server configuration error'') 500, [])"
    and "PUT env fetch request_json = (json (ErrorBody ''Server configuration error'') 500, [])"
    and "DELETE env fetch tripId = (json (ErrorBody ''Server configuration error'') 500, [])"
  using assms by (auto simp: GET_trips_def POST_def PUT_def DELETE_def)

lemma DELETE_requires_id:
  assumes "\<not> falsy (JSONSILO_API_URL env)" and "\<not> falsy (JSONSILO_API_KEY env)"
    and "falsy tripId"
  shows "DELETE env fetch tripId = (json (ErrorBody ''Trip ID is required'') 400, [])"
  using assms by (simp add: DELETE_def)

subsection \<open>Update by id\<close>

text \<open>
  Claim C1. Whenever the store is configured and answers the GET with a document that
  holds a collection, in \<^verbatim>\<open>file_data.trips\<close> or else in a top-level \<^verbatim>\<open>trips\<close>: if no
  stored trip has the id of the request's trip, PUT answers 404 "Trip not found" and the
  GET is the only request it issues (nothing is written); if some stored trip has that id,
  then with \<open>i\<close> the first position holding it, PUT issues the GET and one PATCH whose
  body is the document \<^verbatim>\<open>file_name = "trips_data"\<close>, \<^verbatim>\<open>region_name = "api"\<close>,
  \<^verbatim>\<open>is_public = false\<close> with \<^verbatim>\<open>file_data.trips\<close> the stored collection in which
  the entry at \<open>i\<close> is the request's trip: the written collection has the stored length,
  holds the request's trip at \<open>i\<close> and the stored trip at every other position, and the
  answer is the success message exactly when the PATCH is answered ok.
\<close>

theorem PUT_replaces_in_place:
  assumes url: "JSONSILO_API_URL env = Some url" "url \<noteq> []"
    and key: "JSONSILO_API_KEY env = Some key" "key \<noteq> []"
    and get: "fetch (SiloGET url key) = Reply st (Some doc)" "ok st"
    and stored: "body_file_data doc = Some (Some ts)
                 \<or> ((body_file_data doc = None \<or> body_file_data doc = Some None)
                    \<and> body_trips doc = Some ts)"
  shows "((\<forall>x\<in>set ts. trip_id x \<noteq> trip_id u) \<longrightarrow>
            PUT env fetch (Some u) = (json (ErrorBody ''Trip not found'') 404, [SiloGET url key]))
       \<and> ((\<exists>x\<in>set ts. trip_id x = trip_id u) \<longrightarrow>
            (\<exists>i sent.
               i < length ts
             \<and> trip_id (ts ! i) = trip_id u
             \<and> (\<forall>j<i. trip_id (ts ! j) \<noteq> trip_id u)
             \<and> sent = \<lparr>file_name = ''trips_data'',
                        file_data = \<lparr>trips = ts[i := u]\<rparr>,
                        region_name = ''api'', is_public = False\<rparr>
             \<and> snd (PUT env fetch (Some u)) = [SiloGET url key, SiloPATCH url key sent]
             \<and> length (trips (file_data sent)) = length ts
             \<and> trips (file_data sent) ! i = u
             \<and> (\<forall>j<length ts. j \<noteq> i \<longrightarrow>
                   trips (file_data sent) ! j = ts ! j)
             \<and> fst (PUT env fetch (Some u)) =
                 (case fetch (SiloPATCH url key sent) of
                    Rejected \<Rightarrow> json (ErrorBody ''Failed to update trip'') 500
                  | Reply pst pb \<Rightarrow>
                      if ok pst then json (TripMessage ''Trip updated successfully'' u) 200
                      else json (ErrorBody ''Failed to update trip'') 500)))"
proof -
  from stored have read: "stored_trips doc = ts"
    by (auto simp: stored_trips_def)
  show ?thesis
  proof (intro conjI impI)
  assume "\<forall>x\<in>set ts. trip_id x \<noteq> trip_id u"
  then have "findIndex (\<lambda>trip. trip_id trip = trip_id u) (stored_trips doc) = None"
    by (simp add: findIndex_None read)
  with url key get
  show "PUT env fetch (Some u) = (json (ErrorBody ''Trip not found'') 404, [SiloGET url key])"
    by (simp add: PUT_def)
next
  let ?ts = "ts"
  assume "\<exists>x\<in>set ?ts. trip_id x = trip_id u"
  then have "findIndex (\<lambda>trip. trip_id trip = trip_id u) ?ts \<noteq> None"
    by (simp add: findIndex_None)
  then obtain i where i: "findIndex (\<lambda>trip. trip_id trip = trip_id u) ?ts = Some i"
    by auto
  note fi = findIndex_Some[OF i]
  define sent where "sent = \<lparr>file_name = ''trips_data'',
      file_data = \<lparr>trips = ?ts[i := u]\<rparr>, region_name = ''api'', is_public = False\<rparr>"
  from url key get i
  have tr: "snd (PUT env fetch (Some u)) = [SiloGET url key, SiloPATCH url key sent]"
    by (simp add: PUT_def Let_def sent_def read split: fetch_result.splits)
  from url key get i
  have an: "fst (PUT env fetch (Some u)) =
      (case fetch (SiloPATCH url key sent) of
         Rejected \<Rightarrow> json (ErrorBody ''Failed to update trip'') 500
       | Reply pst pb \<Rightarrow>
           if ok pst then json (TripMessage ''Trip updated successfully'' u) 200
           else json (ErrorBody ''Failed to update trip'') 500)"
    by (simp add: PUT_def Let_def sent_def read split: fetch_result.splits)
  have written: "trips (file_data sent) = ?ts[i := u]"
    by (simp add: sent_def)
  have len: "length (trips (file_data sent)) = length ?ts"
    and at: "trips (file_data sent) ! i = u"
    and others: "\<forall>j<length ?ts. j \<noteq> i \<longrightarrow> trips (file_data sent) ! j = ?ts ! j"
    using fi by (simp_all add: written)
  show "\<exists>i sent.
               i < length ?ts
             \<and> trip_id (?ts ! i) = trip_id u
             \<and> (\<forall>j<i. trip_id (?ts ! j) \<noteq> trip_id u)
             \<and> sent = \<lparr>file_name = ''trips_data'',
                        file_data = \<lparr>trips = ?ts[i := u]\<rparr>,
                        region_name = ''api'', is_public = False\<rparr>
             \<and> snd (PUT env fetch (Some u)) = [SiloGET url key, SiloPATCH url key sent]
             \<and> length (trips (file_data sent)) = length ?ts
             \<and> trips (file_data sent) ! i = u
             \<and> (\<forall>j<length ?ts. j \<noteq> i \<longrightarrow> trips (file_data sent) ! j = ?ts ! j)
             \<and> fst (PUT env fetch (Some u)) =
                 (case fetch (SiloPATCH url key sent) of
                    Rejected \<Rightarrow> json (ErrorBody ''Failed to update trip'') 500
                  | Reply pst pb \<Rightarrow>
                      if ok pst then json (TripMessage ''Trip updated successfully'' u) 200
                      else json (ErrorBody ''Failed to update trip'') 500)"
  proof (intro exI[of _ i] exI[of _ sent] conjI)
    show "i < length ?ts" and "trip_id (?ts ! i) = trip_id u"
      and "\<forall>j<i. trip_id (?ts ! j) \<noteq> trip_id u"
      using fi by simp_all
  qed (fact sent_def tr len at others an)+
  qed
qed

theorem PUT_replaces_in_place_witness:
  "PUT example_env (store 200 (Some (wrapped [trip_paris, trip_rome])) 200) (Some trip_lima)
     = (json (ErrorBody ''Trip not found'') 404, [SiloGET ''https://silo.example/doc'' ''k''])
   \<and> PUT example_env (store 200 (Some (wrapped [trip_paris, trip_rome])) 200) (Some trip_oslo)
     = (json (TripMessage ''Trip updated successfully'' trip_oslo) 200,
        [SiloGET ''https://silo.example/doc'' ''k'',
         SiloPATCH ''https://silo.example/doc'' ''k''
           \<lparr>file_name = ''trips_data'', file_data = \<lparr>trips = [trip_paris, trip_oslo]\<rparr>,
            region_name = ''api'', is_public = False\<rparr>])"
proof -
  let ?url = "''https://silo.example/doc''" and ?key = "''k''"
  let ?fetch = "store 200 (Some (wrapped [trip_paris, trip_rome])) 200
                  :: int silo_request \<Rightarrow> int SiloBody fetch_result"
  let ?get = "SiloGET ?url ?key :: int silo_request"
  let ?ts = "[trip_paris, trip_rome]"
  have ne: "?url \<noteq> []" "?key \<noteq> []" by simp_all
  have get: "?fetch ?get = Reply 200 (Some (wrapped ?ts))"
    by (simp add: store_simps)
  have ok200: "ok 200" by (simp add: ok_def)
  have held: "body_file_data (wrapped ?ts) = Some (Some ?ts)
      \<or> ((body_file_data (wrapped ?ts) = None \<or> body_file_data (wrapped ?ts) = Some None)
         \<and> body_trips (wrapped ?ts) = Some ?ts)"
    by (simp add: wrapped_def)
  note put = PUT_replaces_in_place[of example_env ?url ?key ?fetch 200 "wrapped ?ts" ?ts,
      OF example_env_simps(1) ne(1) example_env_simps(2) ne(2) get ok200 held]
  have absent: "\<forall>x\<in>set ?ts. trip_id x \<noteq> trip_id trip_lima"
    by (simp add: example_ids)
  have present: "\<exists>x\<in>set ?ts. trip_id x = trip_id trip_oslo"
    by (simp add: example_ids)
  from put[of trip_lima, THEN conjunct1] absent
  have first: "PUT example_env ?fetch (Some trip_lima)
     = (json (ErrorBody ''Trip not found'') 404, [?get])"
    by blast
  from put[of trip_oslo, THEN conjunct2] present
  obtain i sent where i: "i < length ?ts" "trip_id (?ts ! i) = trip_id trip_oslo"
    and sent: "sent = \<lparr>file_name = ''trips_data'',
                        file_data = \<lparr>trips = ?ts[i := trip_oslo]\<rparr>,
                        region_name = ''api'', is_public = False\<rparr>"
    and tr: "snd (PUT example_env ?fetch (Some trip_oslo)) = [?get, SiloPATCH ?url ?key sent]"
    and an: "fst (PUT example_env ?fetch (Some trip_oslo)) =
               (case ?fetch (SiloPATCH ?url ?key sent) of
                    Rejected \<Rightarrow> json (ErrorBody ''Failed to update trip'') 500
                  | Reply pst pb \<Rightarrow>
                      if ok pst then json (TripMessage ''Trip updated successfully'' trip_oslo) 200
                      else json (ErrorBody ''Failed to update trip'') 500)"
    by blast
  from i have "i = 1"
    by (cases i) (simp_all add: example_ids)
  with sent have "sent = \<lparr>file_name = ''trips_data'',
      file_data = \<lparr>trips = [trip_paris, trip_oslo]\<rparr>, region_name = ''api'', is_public = False\<rparr>"
    by simp
  with tr an ok200 have "PUT example_env ?fetch (Some trip_oslo)
     = (json (TripMessage ''Trip updated successfully'' trip_oslo) 200,
        [?get, SiloPATCH ?url ?key
           \<lparr>file_name = ''trips_data'', file_data = \<lparr>trips = [trip_paris, trip_oslo]\<rparr>,
            region_name = ''api'', is_public = False\<rparr>])"
    by (simp add: store_simps prod_eq_iff)
  with first show ?thesis by simp
qed

subsection \<open>Delete by id\<close>

lemma length_filter_same: "length (filter P xs) = length xs \<longleftrightarrow> (\<forall>x\<in>set xs. P x)"
proof (induction xs)
  case Nil
  then show ?case by simp
next
  case (Cons x xs)
  have "length (filter P xs) \<noteq> Suc (length xs)"
    using length_filter_le[of P xs] by linarith
  with Cons show ?case by auto
qed

lemma filter_drops_unique:
  assumes "distinct (map f xs)" and "i < length xs" and "f (xs ! i) = t"
  shows "filter (\<lambda>x. f x \<noteq> t) xs = take i xs @ drop (Suc i) xs"
  using assms
proof (induction xs arbitrary: i)
  case Nil
  then show ?case by simp
next
  case (Cons x xs)
  show ?case
  proof (cases i)
    case 0
    with Cons.prems have "f x = t" and "\<forall>y\<in>set xs. f y \<noteq> t"
      by (auto simp: image_iff)
    with 0 show ?thesis by simp
  next
    case (Suc k)
    with Cons.prems have k: "k < length xs" "f (xs ! k) = t" "distinct (map f xs)"
      by auto
    then have "xs ! k \<in> set xs" by simp
    with Cons.prems(1) k(2) have "f x \<noteq> t" by auto
    with Cons.IH[OF k(3) k(1) k(2)] Suc show ?thesis by simp
  qed
qed

text \<open>
  As the claim is stated it fails: the stored ids are different and none of them is empty,
  the request's \<^verbatim>\<open>id\<close> parameter is the empty text, and DELETE answers 400 "Trip ID
  is required" without reading the store, where the claim has it report not-found.
\<close>

theorem DELETE_empty_id_is_refused:
  "distinct (map trip_id [trip_paris, trip_rome])
   \<and> trip_id trip_paris \<noteq> [] \<and> trip_id trip_rome \<noteq> []
   \<and> DELETE example_env (store 200 (Some (wrapped [trip_paris, trip_rome])) 200) (Some [])
       = (json (ErrorBody ''Trip ID is required'') 400, [])"
  by (simp add: DELETE_def example_env_simps example_ids)

text \<open>
  Claim C2, amended. A DELETE whose \<^verbatim>\<open>id\<close> parameter is absent or empty is answered
  400 "Trip ID is required" and issues no request. For a non-empty id \<open>t\<close>, whenever
  the store is configured and answers the GET with a document that holds, in
  \<^verbatim>\<open>file_data.trips\<close> or else in a top-level \<^verbatim>\<open>trips\<close>, a collection whose trip ids
  are pairwise different: if no stored trip has id \<open>t\<close>, DELETE answers 404 "Trip not found"
  and the GET is the only request it issues; if a stored trip has id \<open>t\<close>, DELETE
  issues the GET and one PATCH whose body is the document
  \<^verbatim>\<open>file_name = "trips_data"\<close>, \<^verbatim>\<open>region_name = "api"\<close>, \<^verbatim>\<open>is_public = false\<close> with
  \<^verbatim>\<open>file_data.trips\<close> the stored collection with exactly that entry taken out: no
  trip in the written collection has id \<open>t\<close>, it is shorter than the stored one by
  exactly one, and the answer is the success message exactly when the PATCH is answered
  ok.
\<close>

theorem DELETE_removes_by_id:
  assumes url: "JSONSILO_API_URL env = Some url" "url \<noteq> []"
    and key: "JSONSILO_API_KEY env = Some key" "key \<noteq> []"
    and get: "fetch (SiloGET url key) = Reply st (Some doc)" "ok st"
    and stored: "body_file_data doc = Some (Some ts)
                 \<or> ((body_file_data doc = None \<or> body_file_data doc = Some None)
                    \<and> body_trips doc = Some ts)"
    and uniq: "distinct (map trip_id ts)"
    and t: "t \<noteq> []"
  shows "DELETE env fetch None = (json (ErrorBody ''Trip ID is required'') 400, [])
       \<and> DELETE env fetch (Some []) = (json (ErrorBody ''Trip ID is required'') 400, [])
       \<and> ((\<forall>x\<in>set ts. trip_id x \<noteq> t) \<longrightarrow>
            DELETE env fetch (Some t) = (json (ErrorBody ''Trip not found'') 404, [SiloGET url key]))
       \<and> ((\<exists>x\<in>set ts. trip_id x = t) \<longrightarrow>
            (\<exists>i sent.
               i < length ts \<and> trip_id (ts ! i) = t
             \<and> sent = \<lparr>file_name = ''trips_data'',
                        file_data =
                          \<lparr>trips = take i ts @ drop (Suc i) ts\<rparr>,
                        region_name = ''api'', is_public = False\<rparr>
             \<and> snd (DELETE env fetch (Some t)) = [SiloGET url key, SiloPATCH url key sent]
             \<and> t \<notin> trip_id ` set (trips (file_data sent))
             \<and> length (trips (file_data sent)) + 1 = length ts
             \<and> fst (DELETE env fetch (Some t)) =
                 (case fetch (SiloPATCH url key sent) of
                    Rejected \<Rightarrow> json (ErrorBody ''Failed to delete trip'') 500
                  | Reply pst pb \<Rightarrow>
                      if ok pst then json (Message ''Trip deleted successfully'') 200
                      else json (ErrorBody ''Failed to delete trip'') 500)))"
proof -
  from stored have read: "stored_trips doc = ts"
    by (auto simp: stored_trips_def)
  let ?ts = "ts"
  let ?kept = "filter (\<lambda>trip. trip_id trip \<noteq> t) ?ts"
  show ?thesis
  proof (intro conjI impI)
  {
    from url key
    show "DELETE env fetch None = (json (ErrorBody ''Trip ID is required'') 400, [])"
      and "DELETE env fetch (Some []) = (json (ErrorBody ''Trip ID is required'') 400, [])"
      by (simp_all add: DELETE_def)
  next
    assume "\<forall>x\<in>set ?ts. trip_id x \<noteq> t"
    then have "length ?kept = length ?ts"
      by (simp add: length_filter_same)
    with url key get t
    show "DELETE env fetch (Some t) = (json (ErrorBody ''Trip not found'') 404, [SiloGET url key])"
      by (simp add: DELETE_def Let_def read)
  next
    assume "\<exists>x\<in>set ?ts. trip_id x = t"
    then obtain i where i: "i < length ?ts" "trip_id (?ts ! i) = t"
      by (auto simp: in_set_conv_nth)
    have kept: "?kept = take i ?ts @ drop (Suc i) ?ts"
      using uniq i by (rule filter_drops_unique)
    define sent where "sent = \<lparr>file_name = ''trips_data'',
        file_data = \<lparr>trips = take i ?ts @ drop (Suc i) ?ts\<rparr>,
        region_name = ''api'', is_public = False\<rparr>"
    have written: "trips (file_data sent) = ?kept"
      by (simp add: sent_def kept)
    have len: "length (trips (file_data sent)) + 1 = length ?ts"
      using i(1) by (simp add: sent_def)
    then have ne: "length ?kept \<noteq> length ?ts"
      by (simp add: written)
    have notin: "t \<notin> trip_id ` set (trips (file_data sent))"
      unfolding written by auto
    from url key get t ne
    have tr: "snd (DELETE env fetch (Some t)) = [SiloGET url key, SiloPATCH url key sent]"
      by (simp add: DELETE_def Let_def sent_def read kept[symmetric] split: fetch_result.splits)
    from url key get t ne
    have an: "fst (DELETE env fetch (Some t)) =
                 (case fetch (SiloPATCH url key sent) of
                    Rejected \<Rightarrow> json (ErrorBody ''Failed to delete trip'') 500
                  | Reply pst pb \<Rightarrow>
                      if ok pst then json (Message ''Trip deleted successfully'') 200
                      else json (ErrorBody ''Failed to delete trip'') 500)"
      by (simp add: DELETE_def Let_def sent_def read kept[symmetric] split: fetch_result.splits)
    show "\<exists>i sent.
               i < length ?ts \<and> trip_id (?ts ! i) = t
             \<and> sent = \<lparr>file_name = ''trips_data'',
                        file_data = \<lparr>trips = take i ?ts @ drop (Suc i) ?ts\<rparr>,
                        region_name = ''api'', is_public = False\<rparr>
             \<and> snd (DELETE env fetch (Some t)) = [SiloGET url key, SiloPATCH url key sent]
             \<and> t \<notin> trip_id ` set (trips (file_data sent))
             \<and> length (trips (file_data sent)) + 1 = length ?ts
             \<and> fst (DELETE env fetch (Some t)) =
                 (case fetch (SiloPATCH url key sent) of
                    Rejected \<Rightarrow> json (ErrorBody ''Failed to delete trip'') 500
                  | Reply pst pb \<Rightarrow>
                      if ok pst then json (Message ''Trip deleted successfully'') 200
                      else json (ErrorBody ''Failed to delete trip'') 500)"
      by (intro exI[of _ i] exI[of _ sent] conjI) (fact i sent_def tr notin len an)+
  }
  qed
qed

theorem DELETE_removes_by_id_witness:
  "distinct (map trip_id [trip_paris, trip_rome])
   \<and> DELETE example_env (store 200 (Some (wrapped [trip_paris, trip_rome])) 200) (Some ''c'')
     = (json (ErrorBody ''Trip not found'') 404, [SiloGET ''https://silo.example/doc'' ''k''])
   \<and> DELETE example_env (store 200 (Some (wrapped [trip_paris, trip_rome])) 200) (Some ''b'')
     = (json (Message ''Trip deleted successfully'') 200,
        [SiloGET ''https://silo.example/doc'' ''k'',
         SiloPATCH ''https://silo.example/doc'' ''k''
           \<lparr>file_name = ''trips_data'', file_data = \<lparr>trips = [trip_paris]\<rparr>,
            region_name = ''api'', is_public = False\<rparr>])"
proof -
  let ?url = "''https://silo.example/doc''" and ?key = "''k''"
  let ?fetch = "store 200 (Some (wrapped [trip_paris, trip_rome])) 200
                  :: int silo_request \<Rightarrow> int SiloBody fetch_result"
  let ?get = "SiloGET ?url ?key :: int silo_request"
  let ?ts = "[trip_paris, trip_rome]"
  have ne: "?url \<noteq> []" "?key \<noteq> []" by simp_all
  have get: "?fetch ?get = Reply 200 (Some (wrapped ?ts))"
    by (simp add: store_simps)
  have ok200: "ok 200" by (simp add: ok_def)
  have uniq: "distinct (map trip_id ?ts)"
    by (simp add: example_ids)
  have held: "body_file_data (wrapped ?ts) = Some (Some ?ts)
      \<or> ((body_file_data (wrapped ?ts) = None \<or> body_file_data (wrapped ?ts) = Some None)
         \<and> body_trips (wrapped ?ts) = Some ?ts)"
    by (simp add: wrapped_def)
  note del = DELETE_removes_by_id[of example_env ?url ?key ?fetch 200 "wrapped ?ts" ?ts,
      OF example_env_simps(1) ne(1) example_env_simps(2) ne(2) get ok200 held uniq]
  have absent: "\<forall>x\<in>set ?ts. trip_id x \<noteq> ''c''"
    by (simp add: example_ids)
  have present: "\<exists>x\<in>set ?ts. trip_id x = ''b''"
    by (simp add: example_ids)
  have c: "''c'' \<noteq> ([] :: string)" and b: "''b'' \<noteq> ([] :: string)" by simp_all
  from del[OF c, THEN conjunct2, THEN conjunct2, THEN conjunct1] absent
  have first: "DELETE example_env ?fetch (Some ''c'')
     = (json (ErrorBody ''Trip not found'') 404, [?get])"
    by blast
  from del[OF b, THEN conjunct2, THEN conjunct2, THEN conjunct2] present
  obtain i sent where i: "i < length ?ts" "trip_id (?ts ! i) = ''b''"
    and sent: "sent = \<lparr>file_name = ''trips_data'',
                        file_data = \<lparr>trips = take i ?ts @ drop (Suc i) ?ts\<rparr>,
                        region_name = ''api'', is_public = False\<rparr>"
    and tr: "snd (DELETE example_env ?fetch (Some ''b'')) = [?get, SiloPATCH ?url ?key sent]"
    and an: "fst (DELETE example_env ?fetch (Some ''b'')) =
               (case ?fetch (SiloPATCH ?url ?key sent) of
                    Rejected \<Rightarrow> json (ErrorBody ''Failed to delete trip'') 500
                  | Reply pst pb \<Rightarrow>
                      if ok pst then json (Message ''Trip deleted successfully'') 200
                      else json (ErrorBody ''Failed to delete trip'') 500)"
    by blast
  from i have "i = 1"
    by (cases i) (simp_all add: example_ids)
  with sent have "sent = \<lparr>file_name = ''trips_data'',
      file_data = \<lparr>trips = [trip_paris]\<rparr>, region_name = ''api'', is_public = False\<rparr>"
    by simp
  with tr an ok200 have "DELETE example_env ?fetch (Some ''b'')
     = (json (Message ''Trip deleted successfully'') 200,
        [?get, SiloPATCH ?url ?key
           \<lparr>file_name = ''trips_data'', file_data = \<lparr>trips = [trip_paris]\<rparr>,
            region_name = ''api'', is_public = False\<rparr>])"
    by (simp add: store_simps prod_eq_iff)
  with first uniq show ?thesis by simp
qed

subsection \<open>Create: when it fails\<close>

text \<open>
  As the claim is stated it fails: the store answers the GET with status 500, the PATCH
  with 200, and POST answers with the success message, having sent a collection that
  holds the new trip alone.
\<close>

theorem POST_succeeds_after_failed_GET:
  "\<not> ok 500
   \<and> store 500 None 200 (SiloGET ''https://silo.example/doc'' ''k'' :: int silo_request) = Reply 500 None
   \<and> POST example_env (store 500 None 200) (Some trip_lima)
       = (json (TripMessage ''Trip saved successfully'' trip_lima) 200,
          [SiloGET ''https://silo.example/doc'' ''k'',
           SiloPATCH ''https://silo.example/doc'' ''k''
             \<lparr>file_name = ''trips_data'', file_data = \<lparr>trips = [trip_lima]\<rparr>,
              region_name = ''api'', is_public = False\<rparr>])"
  by (simp add: POST_def example_env_simps store_simps ok_def)

text \<open>
  Claim C3, amended. With the store configured, POST answers with the save error when
  the request body does not parse (nothing is requested then) and when the GET is
  rejected (no response at all). When the GET is answered with a non-success status, the
  collection is taken as empty: POST sends the PATCH with the new trip alone and answers
  as the PATCH goes, the success message when the PATCH is answered ok, the save error
  when it is answered with another status or is rejected. When the GET is answered ok,
  POST issues one PATCH and answers as that PATCH goes, in the same way.
\<close>

theorem POST_answer_follows_PATCH:
  assumes url: "JSONSILO_API_URL env = Some url" "url \<noteq> []"
    and key: "JSONSILO_API_KEY env = Some key" "key \<noteq> []"
  shows "POST env fetch None = (json (ErrorBody ''Failed to save trip'') 500, [])
       \<and> (fetch (SiloGET url key) = Rejected \<longrightarrow>
            POST env fetch (Some trip) =
              (json (ErrorBody ''Failed to save trip'') 500, [SiloGET url key]))
       \<and> (\<forall>st b. fetch (SiloGET url key) = Reply st b \<and> \<not> ok st \<longrightarrow>
            POST env fetch (Some trip) =
              (case fetch (SiloPATCH url key
                       \<lparr>file_name = ''trips_data'', file_data = \<lparr>trips = [trip]\<rparr>,
                        region_name = ''api'', is_public = False\<rparr>) of
                 Rejected \<Rightarrow> json (ErrorBody ''Failed to save trip'') 500
               | Reply pst pb \<Rightarrow>
                   if ok pst then json (TripMessage ''Trip saved successfully'' trip) 200
                   else json (ErrorBody ''Failed to save trip'') 500,
               [SiloGET url key,
                SiloPATCH url key
                  \<lparr>file_name = ''trips_data'', file_data = \<lparr>trips = [trip]\<rparr>,
                   region_name = ''api'', is_public = False\<rparr>]))
       \<and> (\<forall>st b. fetch (SiloGET url key) = Reply st b \<and> ok st \<longrightarrow>
            (\<exists>sent.
               snd (POST env fetch (Some trip)) = [SiloGET url key, SiloPATCH url key sent]
             \<and> fst (POST env fetch (Some trip)) =
                 (case fetch (SiloPATCH url key sent) of
                    Rejected \<Rightarrow> json (ErrorBody ''Failed to save trip'') 500
                  | Reply pst pb \<Rightarrow>
                      if ok pst then json (TripMessage ''Trip saved successfully'' trip) 200
                      else json (ErrorBody ''Failed to save trip'') 500)))"
proof (intro conjI allI impI)
  from url key
  show "POST env fetch None = (json (ErrorBody ''Failed to save trip'') 500, [])"
    by (simp add: POST_def)
next
  assume "fetch (SiloGET url key) = Rejected"
  with url key
  show "POST env fetch (Some trip) =
          (json (ErrorBody ''Failed to save trip'') 500, [SiloGET url key])"
    by (simp add: POST_def)
next
  fix st b
  assume "fetch (SiloGET url key) = Reply st b \<and> \<not> ok st"
  with url key
  show "POST env fetch (Some trip) =
          (case fetch (SiloPATCH url key
                   \<lparr>file_name = ''trips_data'', file_data = \<lparr>trips = [trip]\<rparr>,
                    region_name = ''api'', is_public = False\<rparr>) of
             Rejected \<Rightarrow> json (ErrorBody ''Failed to save trip'') 500
           | Reply pst pb \<Rightarrow>
               if ok pst then json (TripMessage ''Trip saved successfully'' trip) 200
               else json (ErrorBody ''Failed to save trip'') 500,
           [SiloGET url key,
            SiloPATCH url key
              \<lparr>file_name = ''trips_data'', file_data = \<lparr>trips = [trip]\<rparr>,
               region_name = ''api'', is_public = False\<rparr>])"
    by (auto simp: POST_def Let_def split: fetch_result.splits)
next
  fix st b
  assume get: "fetch (SiloGET url key) = Reply st b \<and> ok st"
  define sent where "sent = \<lparr>file_name = ''trips_data'',
      file_data = \<lparr>trips = (case b of Some doc \<Rightarrow> stored_trips doc | None \<Rightarrow> []) @ [trip]\<rparr>,
      region_name = ''api'', is_public = False\<rparr>"
  from url key get
  have "snd (POST env fetch (Some trip)) = [SiloGET url key, SiloPATCH url key sent]"
    and "fst (POST env fetch (Some trip)) =
      (case fetch (SiloPATCH url key sent) of
         Rejected \<Rightarrow> json (ErrorBody ''Failed to save trip'') 500
       | Reply pst pb \<Rightarrow>
           if ok pst then json (TripMessage ''Trip saved successfully'' trip) 200
           else json (ErrorBody ''Failed to save trip'') 500)"
    by (simp_all add: POST_def Let_def sent_def split: fetch_result.splits)
  then show "\<exists>sent.
      snd (POST env fetch (Some trip)) = [SiloGET url key, SiloPATCH url key sent]
    \<and> fst (POST env fetch (Some trip)) =
        (case fetch (SiloPATCH url key sent) of
           Rejected \<Rightarrow> json (ErrorBody ''Failed to save trip'') 500
         | Reply pst pb \<Rightarrow>
             if ok pst then json (TripMessage ''Trip saved successfully'' trip) 200
             else json (ErrorBody ''Failed to save trip'') 500)"
    by blast
qed

theorem POST_answer_follows_PATCH_witness:
  "POST example_env (store 500 None 200) (None :: int TripData option)
     = (json (ErrorBody ''Failed to save trip'') 500, [])
   \<and> POST example_env unreachable (Some trip_lima)
     = (json (ErrorBody ''Failed to save trip'') 500, [SiloGET ''https://silo.example/doc'' ''k''])
   \<and> POST example_env (store 500 (Some (wrapped [trip_paris])) 200) (Some trip_lima)
     = (json (TripMessage ''Trip saved successfully'' trip_lima) 200,
        [SiloGET ''https://silo.example/doc'' ''k'',
         SiloPATCH ''https://silo.example/doc'' ''k''
           \<lparr>file_name = ''trips_data'', file_data = \<lparr>trips = [trip_lima]\<rparr>,
            region_name = ''api'', is_public = False\<rparr>])
   \<and> fst (POST example_env (store 200 (Some (wrapped [trip_paris])) 503) (Some trip_lima))
     = json (ErrorBody ''Failed to save trip'') 500"
proof -
  let ?url = "''https://silo.example/doc''" and ?key = "''k''"
  have ne: "?url \<noteq> []" "?key \<noteq> []" by simp_all
  note post = POST_answer_follows_PATCH[of example_env ?url ?key,
      OF example_env_simps(1) ne(1) example_env_simps(2) ne(2)]
  have nok: "\<not> ok 500" "\<not> ok 503" and ok200: "ok 200" by (simp_all add: ok_def)
  have a: "POST example_env (store 500 None 200) (None :: int TripData option)
     = (json (ErrorBody ''Failed to save trip'') 500, [])"
    by (rule post[THEN conjunct1])
  have b: "POST example_env unreachable (Some trip_lima)
     = (json (ErrorBody ''Failed to save trip'') 500, [SiloGET ?url ?key])"
    by (rule post[THEN conjunct2, THEN conjunct1, rule_format]) (simp add: network_simps)
  have c: "POST example_env (store 500 (Some (wrapped [trip_paris])) 200) (Some trip_lima)
     = (json (TripMessage ''Trip saved successfully'' trip_lima) 200,
        [SiloGET ?url ?key,
         SiloPATCH ?url ?key
           \<lparr>file_name = ''trips_data'', file_data = \<lparr>trips = [trip_lima]\<rparr>,
            region_name = ''api'', is_public = False\<rparr>])"
    using post[of "store 500 (Some (wrapped [trip_paris])) 200" trip_lima,
        THEN conjunct2, THEN conjunct2, THEN conjunct1, rule_format,
        of 500 "Some (wrapped [trip_paris])"] nok ok200
    by (simp add: store_simps)
  have "store 200 (Some (wrapped [trip_paris])) 503 (SiloGET ?url ?key)
          = Reply 200 (Some (wrapped [trip_paris])) \<and> ok 200"
    using ok200 by (simp add: store_simps)
  from post[of "store 200 (Some (wrapped [trip_paris])) 503" trip_lima,
      THEN conjunct2, THEN conjunct2, THEN conjunct2, rule_format, OF this]
  obtain sent where "fst (POST example_env (store 200 (Some (wrapped [trip_paris])) 503)
        (Some trip_lima)) =
      (case store 200 (Some (wrapped [trip_paris])) 503 (SiloPATCH ?url ?key sent) of
         Rejected \<Rightarrow> json (ErrorBody ''Failed to save trip'') 500
       | Reply pst pb \<Rightarrow>
           if ok pst then json (TripMessage ''Trip saved successfully'' trip_lima) 200
           else json (ErrorBody ''Failed to save trip'') 500)"
    by blast
  with nok have d: "fst (POST example_env (store 200 (Some (wrapped [trip_paris])) 503)
      (Some trip_lima)) = json (ErrorBody ''Failed to save trip'') 500"
    by (simp add: store_simps)
  from a b c d show ?thesis by simp
qed

subsection \<open>Create: what is written\<close>




subsection \<open>List\<close>

text \<open>
  As the claim is stated it fails: when the store answers the GET with status 500, the
  body of the handler's answer is the error object, not an empty sequence of trips.
\<close>

theorem GET_trips_failure_is_not_empty_list:
  "\<not> ok 500
   \<and> GET_trips example_env (store 500 None 200 :: int silo_request \<Rightarrow> int SiloBody fetch_result)
       = (json (ErrorBody ''Failed to fetch trips'') 500, [SiloGET ''https://silo.example/doc'' ''k''])
   \<and> body (fst (GET_trips example_env
         (store 500 None 200 :: int silo_request \<Rightarrow> int SiloBody fetch_result))) \<noteq> TripList []"
  by (simp add: GET_trips_def example_env_simps store_simps ok_def json_def)

text \<open>
  Claim C5, amended. With the store configured, the list handler answers status 200 with
  the same ordered sequence of trips whether the store's successful answer holds it as
  \<^verbatim>\<open>{file_data: {trips: [...]}}\<close> or as the bare \<^verbatim>\<open>{trips: [...]}\<close>; when the
  request is rejected, or answered with a non-success status, or its body does not parse,
  the handler answers status 500 with the error object "Failed to fetch trips": an error
  is surfaced and no sequence, empty or not, is returned.
\<close>

theorem GET_trips_both_formats:
  assumes url: "JSONSILO_API_URL env = Some url" "url \<noteq> []"
    and key: "JSONSILO_API_KEY env = Some key" "key \<noteq> []"
  shows "(\<forall>st ts. ok st
            \<and> (fetch (SiloGET url key) = Reply st (Some (wrapped ts))
               \<or> fetch (SiloGET url key) = Reply st (Some (bare ts)))
            \<longrightarrow> GET_trips env fetch = (json (TripList ts) 200, [SiloGET url key]))
       \<and> (fetch (SiloGET url key) = Rejected
            \<or> (\<exists>st b. fetch (SiloGET url key) = Reply st b \<and> (\<not> ok st \<or> b = None))
            \<longrightarrow> GET_trips env fetch =
                  (json (ErrorBody ''Failed to fetch trips'') 500, [SiloGET url key]))"
  using url key
  by (auto simp: GET_trips_def stored_trips_wrapped stored_trips_bare)

theorem GET_trips_both_formats_witness:
  "GET_trips example_env (store 200 (Some (wrapped [trip_paris, trip_rome])) 200)
     = (json (TripList [trip_paris, trip_rome]) 200, [SiloGET ''https://silo.example/doc'' ''k''])
   \<and> GET_trips example_env (store 200 (Some (bare [trip_paris, trip_rome])) 200)
     = (json (TripList [trip_paris, trip_rome]) 200, [SiloGET ''https://silo.example/doc'' ''k''])
   \<and> GET_trips example_env (store 503 (Some (bare [trip_paris, trip_rome])) 200)
     = (json (ErrorBody ''Failed to fetch trips'') 500, [SiloGET ''https://silo.example/doc'' ''k''])"
proof -
  let ?url = "''https://silo.example/doc''" and ?key = "''k''"
  have ne: "?url \<noteq> []" "?key \<noteq> []" by simp_all
  note list = GET_trips_both_formats[OF example_env_simps(1) ne(1) example_env_simps(2) ne(2)]
  have ok200: "ok 200" and nok: "\<not> ok 503" by (simp_all add: ok_def)
  have a: "GET_trips example_env (store 200 (Some (wrapped [trip_paris, trip_rome])) 200)
     = (json (TripList [trip_paris, trip_rome]) 200, [SiloGET ?url ?key])"
    by (rule list[THEN conjunct1, rule_format, of 200]) (simp add: store_simps ok200)
  have b: "GET_trips example_env (store 200 (Some (bare [trip_paris, trip_rome])) 200)
     = (json (TripList [trip_paris, trip_rome]) 200, [SiloGET ?url ?key])"
    by (rule list[THEN conjunct1, rule_format, of 200]) (simp add: store_simps ok200)
  have c: "GET_trips example_env (store 503 (Some (bare [trip_paris, trip_rome])) 200)
     = (json (ErrorBody ''Failed to fetch trips'') 500, [SiloGET ?url ?key])"
    by (rule list[THEN conjunct2, rule_format]) (simp add: store_simps nok)
  from a b c show ?thesis by simp
qed

subsection \<open>Listing, newest first\<close>

lemma mset_insert_sorted: "mset (insert_sorted cmp x xs) = add_mset x (mset xs)"
  by (induction xs) auto

lemma mset_insertion_sort: "mset (insertion_sort cmp xs) = mset xs"
  by (induction xs) (auto simp: mset_insert_sorted)

lemma set_insert_sorted: "set (insert_sorted cmp x xs) = insert x (set xs)"
  by (induction xs) auto

lemma set_insertion_sort: "set (insertion_sort cmp xs) = set xs"
  by (induction xs) (auto simp: set_insert_sorted)

lemma insert_sorted_descending:
  fixes k :: "'a \<Rightarrow> int"
  assumes cmp: "\<And>a b. a \<in> insert x (set xs) \<Longrightarrow> b \<in> insert x (set xs)
                  \<Longrightarrow> (cmp a b \<le> 0) = (k b \<le> k a)"
    and sorted: "sorted_wrt (\<lambda>a b. k b \<le> k a) xs"
  shows "sorted_wrt (\<lambda>a b. k b \<le> k a) (insert_sorted cmp x xs)"
  using assms
proof (induction xs)
  case Nil
  then show ?case by simp
next
  case (Cons y ys)
  have xy: "(cmp x y \<le> 0) = (k y \<le> k x)"
    by (rule Cons.prems(1)) simp_all
  show ?case
  proof (cases "cmp x y \<le> 0")
    case True
    with xy have "k y \<le> k x" by simp
    moreover from Cons.prems(2) have "\<forall>z\<in>set ys. k z \<le> k y" by simp
    ultimately have "\<forall>z\<in>set (y # ys). k z \<le> k x" by auto
    with True Cons.prems(2) show ?thesis by simp
  next
    case False
    with xy have lt: "k x \<le> k y" by simp
    have "sorted_wrt (\<lambda>a b. k b \<le> k a) (insert_sorted cmp x ys)"
    proof (rule Cons.IH)
      fix a b
      assume "a \<in> insert x (set ys)" "b \<in> insert x (set ys)"
      then show "(cmp a b \<le> 0) = (k b \<le> k a)"
        by (intro Cons.prems(1)) auto
    next
      from Cons.prems(2) show "sorted_wrt (\<lambda>a b. k b \<le> k a) ys" by simp
    qed
    moreover from Cons.prems(2) lt have "\<forall>z\<in>set (insert_sorted cmp x ys). k z \<le> k y"
      by (auto simp: set_insert_sorted)
    ultimately show ?thesis using False by simp
  qed
qed

lemma insertion_sort_descending:
  fixes k :: "'a \<Rightarrow> int"
  assumes "\<And>a b. a \<in> set xs \<Longrightarrow> b \<in> set xs \<Longrightarrow> (cmp a b \<le> 0) = (k b \<le> k a)"
  shows "sorted_wrt (\<lambda>a b. k b \<le> k a) (insertion_sort cmp xs)"
  using assms
proof (induction xs)
  case Nil
  then show ?case by simp
next
  case (Cons x xs)
  have tail: "sorted_wrt (\<lambda>a b. k b \<le> k a) (insertion_sort cmp xs)"
    by (rule Cons.IH) (simp add: Cons.prems)
  have "sorted_wrt (\<lambda>a b. k b \<le> k a) (insert_sorted cmp x (insertion_sort cmp xs))"
  proof (rule insert_sorted_descending[OF _ tail])
    fix a b
    assume "a \<in> insert x (set (insertion_sort cmp xs))"
      "b \<in> insert x (set (insertion_sort cmp xs))"
    then show "(cmp a b \<le> 0) = (k b \<le> k a)"
      by (intro Cons.prems) (auto simp: set_insertion_sort)
  qed
  then show ?case by simp
qed

text \<open>A comparator that is a difference of keys is consistent.\<close>

lemma consistent_by_key:
  fixes k :: "'a \<Rightarrow> int"
  assumes "\<And>a b. a \<in> set xs \<Longrightarrow> b \<in> set xs \<Longrightarrow> cmp a b = k b - k a"
  shows "consistent_comparator cmp xs"
  unfolding consistent_comparator_def list_all_iff
  using assms by auto

lemma compareCreatedAt_by_key:
  assumes valid: "\<forall>t\<in>set ts. getTime (createdAt t) \<noteq> None"
    and ab: "a \<in> set ts" "b \<in> set ts"
  shows "compareCreatedAt getTime a b =
           (case getTime (createdAt b) of Some ms \<Rightarrow> ms | None \<Rightarrow> 0)
         - (case getTime (createdAt a) of Some ms \<Rightarrow> ms | None \<Rightarrow> 0)"
proof -
  from ab valid have "\<exists>ta. getTime (createdAt a) = Some ta"
    and "\<exists>tb. getTime (createdAt b) = Some tb"
    by auto
  then obtain ta tb where "getTime (createdAt a) = Some ta" "getTime (createdAt b) = Some tb"
    by blast
  then show ?thesis by (simp add: compareCreatedAt_def)
qed

lemma array_sort_newest_first:
  assumes valid: "\<forall>t\<in>set ts. getTime (createdAt t) \<noteq> None"
  shows "array_sort engine (compareCreatedAt getTime) ts
           = insertion_sort (compareCreatedAt getTime) ts"
    and "sorted_wrt (\<lambda>a b. \<exists>ta tb. getTime (createdAt a) = Some ta
                          \<and> getTime (createdAt b) = Some tb \<and> tb \<le> ta)
           (insertion_sort (compareCreatedAt getTime) ts)"
proof -
  let ?k = "\<lambda>t. case getTime (createdAt t) of Some ms \<Rightarrow> ms | None \<Rightarrow> (0::int)"
  have key: "compareCreatedAt getTime a b = ?k b - ?k a" if "a \<in> set ts" "b \<in> set ts" for a b
    using valid that by (rule compareCreatedAt_by_key)
  then have "consistent_comparator (compareCreatedAt getTime) ts"
    by (rule consistent_by_key)
  then show "array_sort engine (compareCreatedAt getTime) ts
           = insertion_sort (compareCreatedAt getTime) ts"
    by (simp add: array_sort_def)
  have "(compareCreatedAt getTime a b \<le> 0) = (?k b \<le> ?k a)" if "a \<in> set ts" "b \<in> set ts" for a b
    using key[OF that] by simp
  then have "sorted_wrt (\<lambda>a b. ?k b \<le> ?k a) (insertion_sort (compareCreatedAt getTime) ts)"
    by (rule insertion_sort_descending)
  then show "sorted_wrt (\<lambda>a b. \<exists>ta tb. getTime (createdAt a) = Some ta
                          \<and> getTime (createdAt b) = Some tb \<and> tb \<le> ta)
           (insertion_sort (compareCreatedAt getTime) ts)"
  proof (rule sorted_wrt_mono_rel[rotated])
    fix a b
    assume "a \<in> set (insertion_sort (compareCreatedAt getTime) ts)"
      and "b \<in> set (insertion_sort (compareCreatedAt getTime) ts)"
      and "?k b \<le> ?k a"
    then have ab: "a \<in> set ts" "b \<in> set ts"
      and le: "?k b \<le> ?k a"
      by (simp_all add: set_insertion_sort)
    from ab valid have "\<exists>ta. getTime (createdAt a) = Some ta"
      and "\<exists>tb. getTime (createdAt b) = Some tb"
      by auto
    then obtain ta tb where "getTime (createdAt a) = Some ta" "getTime (createdAt b) = Some tb"
      by blast
    with le show "\<exists>ta tb. getTime (createdAt a) = Some ta
                          \<and> getTime (createdAt b) = Some tb \<and> tb \<le> ta"
      by simp
  qed
qed

lemma example_dates:
  "example_getTime (createdAt trip_paris) = Some 1735689600000"
  "example_getTime (createdAt trip_lima) = Some 1738368000000"
  "example_getTime (createdAt trip_rome) = Some 1740787200000"
  "example_getTime (createdAt trip_undated) = None"
  by (simp_all add: trip_paris_def trip_rome_def trip_lima_def trip_undated_def example_trip_def
      example_getTime_def)

text \<open>
  As the claim is stated it fails: the store holds a trip of January, a trip whose
  \<^verbatim>\<open>createdAt\<close> is no date, and a trip of March, in this order. The comparator is
  then not consistent, the order is the engine's, and with an engine that sorts by
  insertion the page lists the three as they are stored: the trip of January before the
  trip of March.
\<close>

theorem listing_with_unreadable_date:
  "example_getTime (createdAt trip_paris) = Some 1735689600000
   \<and> example_getTime (createdAt trip_undated) = None
   \<and> example_getTime (createdAt trip_rome) = Some 1740787200000
   \<and> home_trips (fetchTrips insertion_engine example_getTime
        (served (fst (GET_trips example_env
           (store 200 (Some (wrapped [trip_paris, trip_undated, trip_rome])) 200)))) example_home)
       = [trip_paris, trip_undated, trip_rome]"
proof -
  have cmp: "compareCreatedAt example_getTime trip_paris trip_undated = 0"
    "compareCreatedAt example_getTime trip_undated trip_rome = 0"
    "compareCreatedAt example_getTime trip_paris trip_rome = 5097600000"
    by (simp_all add: compareCreatedAt_def example_dates)
  have "\<not> consistent_comparator (compareCreatedAt example_getTime)
           [trip_paris, trip_undated, trip_rome]"
    by (simp add: consistent_comparator_def cmp)
  then have "array_sort insertion_engine (compareCreatedAt example_getTime)
        [trip_paris, trip_undated, trip_rome] = [trip_paris, trip_undated, trip_rome]"
    by (simp add: array_sort_def insertion_engine_def cmp)
  then show ?thesis
    by (simp add: GET_trips_def example_env_simps store_simps ok_def served_def json_def
        fetchTrips_def stored_trips_wrapped example_dates)
qed

text \<open>
  Claim C9, amended. The route hands the trips over in the stored order, and the home
  page's \<^verbatim>\<open>fetchTrips\<close> sorts what it receives. For every stored collection whose
  \<^verbatim>\<open>createdAt\<close> texts all read as dates, with the store configured and answering the
  GET with a document that holds the collection in \<^verbatim>\<open>file_data.trips\<close> or else in a
  top-level \<^verbatim>\<open>trips\<close>, and whatever the engine, the trips the page ends up listing are ordered newest
  first (each trip's date is at least that of every trip after it), they are the stored
  trips, each as often as it is stored, and no error is set.
\<close>

theorem listing_newest_first:
  assumes url: "JSONSILO_API_URL env = Some url" "url \<noteq> []"
    and key: "JSONSILO_API_KEY env = Some key" "key \<noteq> []"
    and get: "fetch (SiloGET url key) = Reply st (Some doc)" "ok st"
    and stored: "body_file_data doc = Some (Some ts)
                 \<or> ((body_file_data doc = None \<or> body_file_data doc = Some None)
                    \<and> body_trips doc = Some ts)"
    and valid: "\<forall>t\<in>set ts. getTime (createdAt t) \<noteq> None"
  shows "sorted_wrt (\<lambda>a b. \<exists>ta tb. getTime (createdAt a) = Some ta
                          \<and> getTime (createdAt b) = Some tb \<and> tb \<le> ta)
           (home_trips (fetchTrips engine getTime (served (fst (GET_trips env fetch))) s))
       \<and> mset (home_trips (fetchTrips engine getTime (served (fst (GET_trips env fetch))) s))
           = mset ts
       \<and> error (fetchTrips engine getTime (served (fst (GET_trips env fetch))) s) = None"
proof -
  have ok200: "ok 200" by (simp add: ok_def)
  from stored have read: "stored_trips doc = ts"
    by (auto simp: stored_trips_def)
  from url key get
  have "served (fst (GET_trips env fetch)) = Reply 200 (Some (TripList ts))"
    by (simp add: GET_trips_def served_def json_def read)
  then have *: "fetchTrips engine getTime (served (fst (GET_trips env fetch))) s =
      s\<lparr>home_trips := insertion_sort (compareCreatedAt getTime) ts,
        loading := False, error := None\<rparr>"
    using ok200 by (simp add: fetchTrips_def array_sort_newest_first(1)[OF valid])
  show ?thesis
    unfolding * using array_sort_newest_first(2)[OF valid]
    by (simp add: mset_insertion_sort)
qed

theorem listing_newest_first_witness:
  "example_getTime (createdAt trip_paris) = Some 1735689600000
   \<and> example_getTime (createdAt trip_rome) = Some 1740787200000
   \<and> example_getTime (createdAt trip_lima) = Some 1738368000000
   \<and> sorted_wrt (\<lambda>a b. \<exists>ta tb. example_getTime (createdAt a) = Some ta
                          \<and> example_getTime (createdAt b) = Some tb \<and> tb \<le> ta)
        (home_trips (fetchTrips insertion_engine example_getTime
           (served (fst (GET_trips example_env
              (store 200 (Some (wrapped [trip_paris, trip_rome, trip_lima])) 200)))) example_home))
   \<and> mset (home_trips (fetchTrips insertion_engine example_getTime
           (served (fst (GET_trips example_env
              (store 200 (Some (wrapped [trip_paris, trip_rome, trip_lima])) 200)))) example_home))
       = mset [trip_paris, trip_rome, trip_lima]
   \<and> home_trips (fetchTrips insertion_engine example_getTime
           (served (fst (GET_trips example_env
              (store 200 (Some (wrapped [trip_paris, trip_rome, trip_lima])) 200)))) example_home)
       = [trip_rome, trip_lima, trip_paris]"
proof -
  let ?url = "''https://silo.example/doc''" and ?key = "''k''"
  let ?ts = "[trip_paris, trip_rome, trip_lima]"
  let ?f = "store 200 (Some (wrapped ?ts)) 200
              :: int silo_request \<Rightarrow> int SiloBody fetch_result"
  have ne: "?url \<noteq> []" "?key \<noteq> []" by simp_all
  have get: "?f (SiloGET ?url ?key) = Reply 200 (Some (wrapped ?ts))"
    by (simp add: store_simps)
  have ok200: "ok 200" by (simp add: ok_def)
  have valid: "\<forall>t\<in>set ?ts. example_getTime (createdAt t) \<noteq> None"
    by (simp add: example_dates)
  have held: "body_file_data (wrapped ?ts) = Some (Some ?ts)
      \<or> ((body_file_data (wrapped ?ts) = None \<or> body_file_data (wrapped ?ts) = Some None)
         \<and> body_trips (wrapped ?ts) = Some ?ts)"
    by (simp add: wrapped_def)
  have sorted: "array_sort insertion_engine (compareCreatedAt example_getTime) ?ts
      = [trip_rome, trip_lima, trip_paris]"
    by (simp add: array_sort_newest_first(1)[OF valid] compareCreatedAt_def example_dates)
  have listed: "home_trips (fetchTrips insertion_engine example_getTime
        (served (fst (GET_trips example_env ?f))) example_home) = [trip_rome, trip_lima, trip_paris]"
    by (simp add: GET_trips_def example_env_simps store_simps ok_def served_def json_def
        fetchTrips_def stored_trips_wrapped sorted)
  from listing_newest_first[of example_env ?url ?key ?f 200 "wrapped ?ts" ?ts example_getTime
      insertion_engine example_home,
      OF example_env_simps(1) ne(1) example_env_simps(2) ne(2) get ok200 held valid]
    example_dates listed
  show ?thesis
    by (simp only: simp_thms)
qed

subsection \<open>Forward geocoding\<close>

text \<open>
  Claim C6. For every query whose text, with the white space at both ends removed, is
  shorter than 3 code units (the empty query among them), \<^verbatim>\<open>searchLocations\<close> returns
  the empty sequence and issues no request, whatever the network would have answered.
\<close>

theorem searchLocations_short_query:
  "length (trim query) < 3 \<Longrightarrow> searchLocations fetch query = ([], [])"
  by (simp add: searchLocations_def)

theorem searchLocations_short_query_witness:
  "trim [0x20, 0x61, 0x62, 0x9, 0x20] = [0x61, 0x62]
   \<and> searchLocations (answering 200 (Some ([] :: int GeocodingResult list)))
        [0x20, 0x61, 0x62, 0x9, 0x20] = ([], [])
   \<and> searchLocations (answering 200 (Some ([] :: int GeocodingResult list))) [] = ([], [])"
proof -
  have t: "trim [0x20, 0x61, 0x62, 0x9, 0x20] = [0x61, 0x62]"
    by (simp add: trim_def isWhiteSpace_def)
  have e: "trim [] = []"
    by (simp add: trim_def)
  have a: "searchLocations (answering 200 (Some ([] :: int GeocodingResult list)))
        [0x20, 0x61, 0x62, 0x9, 0x20] = ([], [])"
    by (rule searchLocations_short_query) (simp add: t)
  have b: "searchLocations (answering 200 (Some ([] :: int GeocodingResult list))) [] = ([], [])"
    by (rule searchLocations_short_query) (simp add: e)
  from t a b show ?thesis by simp
qed

subsection \<open>Reverse geocoding\<close>

text \<open>
  Claim C7. For every latitude and longitude, when the provider fails (the request is
  rejected, or answered with a non-success status, or its body does not parse)
  \<^verbatim>\<open>reverseGeocode\<close> returns the text of the latitude, a comma and a space, and the
  text of the longitude; and in every case, failure or not, the string it returns is not
  empty.
\<close>

theorem reverseGeocode_fallback:
  "(fetch (Reverse lat_arg lng_arg) = Rejected
      \<or> (\<exists>st b. fetch (Reverse lat_arg lng_arg) = Reply st b \<and> (\<not> ok st \<or> b = None))
      \<longrightarrow> reverseGeocode toString fetch lat_arg lng_arg =
            (toString lat_arg @ '', '' @ toString lng_arg, [Reverse lat_arg lng_arg]))
   \<and> fst (reverseGeocode toString fetch lat_arg lng_arg) \<noteq> []"
  by (cases "fetch (Reverse lat_arg lng_arg)")
     (auto simp: reverseGeocode_def split: option.splits)

theorem reverseGeocode_fallback_witness:
  "reverseGeocode as_written unreachable ''12.97'' ''77.59''
     = (''12.97, 77.59'', [Reverse ''12.97'' ''77.59''])
   \<and> reverseGeocode as_written (answering 429 None) ''12.97'' ''77.59''
     = (''12.97, 77.59'', [Reverse ''12.97'' ''77.59''])
   \<and> reverseGeocode as_written (answering 200 None) ''12.97'' ''77.59''
     = (''12.97, 77.59'', [Reverse ''12.97'' ''77.59''])"
proof -
  have nok: "\<not> ok 429" by (simp add: ok_def)
  have a: "reverseGeocode as_written unreachable ''12.97'' ''77.59''
     = (''12.97, 77.59'', [Reverse ''12.97'' ''77.59''])"
    using reverseGeocode_fallback[of unreachable "''12.97''" "''77.59''" as_written]
    by (simp add: network_simps)
  have b: "reverseGeocode as_written (answering 429 None) ''12.97'' ''77.59''
     = (''12.97, 77.59'', [Reverse ''12.97'' ''77.59''])"
    using reverseGeocode_fallback[of "answering 429 None" "''12.97''" "''77.59''" as_written] nok
    by (simp add: network_simps)
  have c: "reverseGeocode as_written (answering 200 None) ''12.97'' ''77.59''
     = (''12.97, 77.59'', [Reverse ''12.97'' ''77.59''])"
    using reverseGeocode_fallback[of "answering 200 None" "''12.97''" "''77.59''" as_written]
    by (simp add: network_simps)
  from a b c show ?thesis by simp
qed

subsection \<open>Weather\<close>

text \<open>
  As the claim is stated it fails: \<^verbatim>\<open>abc\<close> and \<^verbatim>\<open>north\<close> are no coordinates,
  yet the handler sends them to the forecast endpoint; with that request rejected it
  answers the fetch failure 500 and not the validation failure 400.
\<close>

theorem GET_weather_invalid_text_is_fetched:
  "GET_weather (unreachable :: weather_request \<Rightarrow> int WeatherData fetch_result) (Some ''abc'') (Some ''north'')
     = (json (ErrorBody ''Failed to fetch weather data'') 500, [Forecast ''abc'' ''north''])"
  by (simp add: GET_weather_def network_simps)

text \<open>
  Claim C8, amended. When the latitude or the longitude parameter is missing or empty, the
  weather handler answers the validation failure (status 400) and issues no request. When
  both are present and non-empty, whatever their text, it issues the forecast request for
  them, and when that is answered ok with a body, it answers status 200 with the
  flattened record: temperature, temperatureUnit, windSpeed, windSpeedUnit and time taken
  from the body's current values and units, and coordinates from its latitude and
  longitude.
\<close>

theorem GET_weather_required_then_fetch:
  "(falsy lat_param \<or> falsy lng_param \<longrightarrow>
      GET_weather fetch lat_param lng_param =
        (json (ErrorBody ''Latitude and longitude are required'') 400, []))
   \<and> (\<forall>la ln. lat_param = Some la \<and> la \<noteq> [] \<and> lng_param = Some ln \<and> ln \<noteq> [] \<longrightarrow>
         snd (GET_weather fetch lat_param lng_param) = [Forecast la ln]
       \<and> (\<forall>st wd. fetch (Forecast la ln) = Reply st (Some wd) \<and> ok st \<longrightarrow>
             fst (GET_weather fetch lat_param lng_param) =
               json (Weather
                 \<lparr>temperature = temperature_2m (current wd),
                  temperatureUnit = temperature_2m_unit (current_units wd),
                  windSpeed = wind_speed_10m (current wd),
                  windSpeedUnit = wind_speed_10m_unit (current_units wd),
                  time = current_time (current wd),
                  coordinates = \<lparr>lat = latitude wd, lng = longitude wd\<rparr>\<rparr>) 200))"
proof (intro conjI impI allI)
  assume "falsy lat_param \<or> falsy lng_param"
  then show "GET_weather fetch lat_param lng_param =
        (json (ErrorBody ''Latitude and longitude are required'') 400, [])"
    by (auto simp: GET_weather_def)
next
  fix la ln
  assume "lat_param = Some la \<and> la \<noteq> [] \<and> lng_param = Some ln \<and> ln \<noteq> []"
  then show "snd (GET_weather fetch lat_param lng_param) = [Forecast la ln]"
    by (auto simp: GET_weather_def split: fetch_result.splits option.splits)
next
  fix la ln st wd
  assume "lat_param = Some la \<and> la \<noteq> [] \<and> lng_param = Some ln \<and> ln \<noteq> []"
    and "fetch (Forecast la ln) = Reply st (Some wd) \<and> ok st"
  then show "fst (GET_weather fetch lat_param lng_param) =
               json (Weather
                 \<lparr>temperature = temperature_2m (current wd),
                  temperatureUnit = temperature_2m_unit (current_units wd),
                  windSpeed = wind_speed_10m (current wd),
                  windSpeedUnit = wind_speed_10m_unit (current_units wd),
                  time = current_time (current wd),
                  coordinates = \<lparr>lat = latitude wd, lng = longitude wd\<rparr>\<rparr>) 200"
    by (simp add: GET_weather_def)
qed

theorem GET_weather_required_then_fetch_witness:
  "GET_weather (answering 200 (Some example_weather)) None (Some ''77.59'')
     = (json (ErrorBody ''Latitude and longitude are required'') 400, [])
   \<and> GET_weather (answering 200 (Some example_weather)) (Some ''12.97'') (Some [])
     = (json (ErrorBody ''Latitude and longitude are required'') 400, [])
   \<and> GET_weather (answering 200 (Some example_weather)) (Some ''12.97'') (Some ''77.59'')
     = (json (Weather
          \<lparr>temperature = 24, temperatureUnit = ''C'', windSpeed = 11, windSpeedUnit = ''km/h'',
           time = ''2025-03-01T10:00'', coordinates = \<lparr>lat = 13, lng = 78\<rparr>\<rparr>) 200,
        [Forecast ''12.97'' ''77.59''])"
proof -
  let ?f = "answering 200 (Some example_weather) :: weather_request \<Rightarrow> int WeatherData fetch_result"
  have ok200: "ok 200" by (simp add: ok_def)
  have a: "GET_weather ?f None (Some ''77.59'')
     = (json (ErrorBody ''Latitude and longitude are required'') 400, [])"
    by (rule GET_weather_required_then_fetch[THEN conjunct1, rule_format]) simp
  have b: "GET_weather ?f (Some ''12.97'') (Some [])
     = (json (ErrorBody ''Latitude and longitude are required'') 400, [])"
    by (rule GET_weather_required_then_fetch[THEN conjunct1, rule_format]) simp
  have pre: "Some ''12.97'' = Some ''12.97'' \<and> ''12.97'' \<noteq> [] \<and> Some ''77.59'' = Some ''77.59'' \<and> ''77.59'' \<noteq> []"
    by simp
  note fetched = GET_weather_required_then_fetch[of "Some ''12.97''" "Some ''77.59''" ?f,
      THEN conjunct2, rule_format, OF pre]
  have got: "?f (Forecast ''12.97'' ''77.59'') = Reply 200 (Some example_weather) \<and> ok 200"
    using ok200 by (simp add: network_simps)
  have c: "GET_weather ?f (Some ''12.97'') (Some ''77.59'')
     = (json (Weather
          \<lparr>temperature = 24, temperatureUnit = ''C'', windSpeed = 11, windSpeedUnit = ''km/h'',
           time = ''2025-03-01T10:00'', coordinates = \<lparr>lat = 13, lng = 78\<rparr>\<rparr>) 200,
        [Forecast ''12.97'' ''77.59''])"
    using fetched[THEN conjunct1] fetched[THEN conjunct2, rule_format, OF got]
    by (simp add: prod_eq_iff example_weather_def)
  from a b c show ?thesis by simp
qed

subsection \<open>Trip count\<close>

text \<open>
  Claim C10. On every execution the trip-count handler answers status 200 with a count and
  a next trip number that is the count plus one. When the request is rejected, or answered
  with a non-success status, or its body does not parse or has no
  \<^verbatim>\<open>file_data.trips\<close>, the answer is count 0 and next trip number 1; that includes
  the bare \<^verbatim>\<open>{trips: [...]}\<close> format, whatever trips it holds. For the wrapped format
  answered ok, the count is the number of stored trips.
\<close>

theorem GET_count_next_number:
  "(\<exists>count. fst (GET_count env fetch) = json (TripCount count (count + 1)) 200)
   \<and> (\<forall>url key.
        JSONSILO_API_URL env = Some url \<and> JSONSILO_API_KEY env = Some key
        \<and> (fetch (SiloGET url key) = Rejected
           \<or> (\<exists>st b. fetch (SiloGET url key) = Reply st b
                 \<and> (\<not> ok st \<or> b = None
                    \<or> (\<exists>doc. b = Some doc
                          \<and> (body_file_data doc = None \<or> body_file_data doc = Some None)))))
        \<longrightarrow> GET_count env fetch = (json (TripCount 0 1) 200, [SiloGET url key]))
   \<and> (\<forall>url key st ts.
        JSONSILO_API_URL env = Some url \<and> JSONSILO_API_KEY env = Some key
        \<and> fetch (SiloGET url key) = Reply st (Some (bare ts))
        \<longrightarrow> GET_count env fetch = (json (TripCount 0 1) 200, [SiloGET url key]))
   \<and> (\<forall>url key st ts.
        JSONSILO_API_URL env = Some url \<and> JSONSILO_API_KEY env = Some key
        \<and> fetch (SiloGET url key) = Reply st (Some (wrapped ts)) \<and> ok st
        \<longrightarrow> GET_count env fetch =
              (json (TripCount (length ts) (length ts + 1)) 200, [SiloGET url key]))"
proof (intro conjI allI impI)
  show "\<exists>count. fst (GET_count env fetch) = json (TripCount count (count + 1)) 200"
    by (auto simp: GET_count_def Let_def split: option.splits fetch_result.splits)
next
  fix url key
  assume "JSONSILO_API_URL env = Some url \<and> JSONSILO_API_KEY env = Some key
        \<and> (fetch (SiloGET url key) = Rejected
           \<or> (\<exists>st b. fetch (SiloGET url key) = Reply st b
                 \<and> (\<not> ok st \<or> b = None
                    \<or> (\<exists>doc. b = Some doc
                          \<and> (body_file_data doc = None \<or> body_file_data doc = Some None)))))"
  then show "GET_count env fetch = (json (TripCount 0 1) 200, [SiloGET url key])"
    by (auto simp: GET_count_def Let_def)
next
  fix url key st ts
  assume "JSONSILO_API_URL env = Some url \<and> JSONSILO_API_KEY env = Some key
        \<and> fetch (SiloGET url key) = Reply st (Some (bare ts))"
  then show "GET_count env fetch = (json (TripCount 0 1) 200, [SiloGET url key])"
    by (simp add: GET_count_def Let_def bare_def)
next
  fix url key st ts
  assume "JSONSILO_API_URL env = Some url \<and> JSONSILO_API_KEY env = Some key
        \<and> fetch (SiloGET url key) = Reply st (Some (wrapped ts)) \<and> ok st"
  then show "GET_count env fetch =
              (json (TripCount (length ts) (length ts + 1)) 200, [SiloGET url key])"
    by (simp add: GET_count_def Let_def wrapped_def)
qed

theorem GET_count_next_number_witness:
  "GET_count example_env (store 200 (Some (bare [trip_paris, trip_rome])) 200)
     = (json (TripCount 0 1) 200, [SiloGET ''https://silo.example/doc'' ''k''])
   \<and> GET_count example_env (store 500 (Some (wrapped [trip_paris, trip_rome])) 200)
     = (json (TripCount 0 1) 200, [SiloGET ''https://silo.example/doc'' ''k''])
   \<and> GET_count example_env (store 200 (Some (wrapped [trip_paris, trip_rome])) 200)
     = (json (TripCount 2 3) 200, [SiloGET ''https://silo.example/doc'' ''k''])"
proof -
  let ?url = "''https://silo.example/doc''" and ?key = "''k''"
  have ok200: "ok 200" and nok: "\<not> ok 500" by (simp_all add: ok_def)
  have a: "GET_count example_env (store 200 (Some (bare [trip_paris, trip_rome])) 200)
     = (json (TripCount 0 1) 200, [SiloGET ?url ?key])"
    by (rule GET_count_next_number[THEN conjunct2, THEN conjunct2, THEN conjunct1, rule_format,
          of _ _ _ _ 200 "[trip_paris, trip_rome]"])
       (simp add: example_env_simps store_simps)
  have b: "GET_count example_env (store 500 (Some (wrapped [trip_paris, trip_rome])) 200)
     = (json (TripCount 0 1) 200, [SiloGET ?url ?key])"
    by (rule GET_count_next_number[THEN conjunct2, THEN conjunct1, rule_format])
       (simp add: example_env_simps store_simps nok)
  have c: "GET_count example_env (store 200 (Some (wrapped [trip_paris, trip_rome])) 200)
     = (json (TripCount (length [trip_paris, trip_rome]) (length [trip_paris, trip_rome] + 1)) 200,
        [SiloGET ?url ?key])"
    by (rule GET_count_next_number[THEN conjunct2, THEN conjunct2, THEN conjunct2, rule_format,
          of _ _ _ _ 200])
       (simp add: example_env_simps store_simps ok200)
  from a b c show ?thesis by (simp add: eval_nat_numeral)
qed

end
